theory Spec2Isabelle
  imports Complex_Main
begin

section \<open>Errors raised by the Python code\<close>

text \<open>
  Every exception the code can raise is a value. A function that may raise returns a sum
  whose left summand is the exception.
\<close>

datatype error =
    NameError
  | AttributeError
  | IndexError
  | TypeError
  | RuntimeError
  | FileNotFoundError
  | ZeroDivisionError

definition bind_err :: "'e + 'a \<Rightarrow> ('a \<Rightarrow> 'e + 'b) \<Rightarrow> 'e + 'b" where
  "bind_err r f = (case r of Inl e \<Rightarrow> Inl e | Inr x \<Rightarrow> f x)"

text \<open>A loop that builds a list and stops at the first exception.\<close>

fun mapM_err :: "('a \<Rightarrow> 'e + 'b) \<Rightarrow> 'a list \<Rightarrow> 'e + 'b list" where
  "mapM_err f [] = Inr []"
| "mapM_err f (x # xs) =
     (case f x of
        Inl e \<Rightarrow> Inl e
      | Inr y \<Rightarrow> (case mapM_err f xs of Inl e \<Rightarrow> Inl e | Inr ys \<Rightarrow> Inr (y # ys)))"

section \<open>Python sequence operations\<close>

text \<open>\<open>xs[i:j]\<close> for non-negative bounds: a slice never raises, it truncates.\<close>

definition py_slice :: "nat \<Rightarrow> nat \<Rightarrow> 'a list \<Rightarrow> 'a list" where
  "py_slice i j xs = drop i (take j xs)"

text \<open>\<open>xs[i]\<close> on a Python list, for a non-negative index, and \<open>xs[-1]\<close>.\<close>

definition py_index :: "'a list \<Rightarrow> nat \<Rightarrow> error + 'a" where
  "py_index xs i = (if i < length xs then Inr (xs ! i) else Inl IndexError)"

definition py_last :: "'a list \<Rightarrow> error + 'a" where
  "py_last xs = (if xs = [] then Inl IndexError else Inr (last xs))"

section \<open>Configuration (\<open>args\<close>) as read by the learner\<close>

record args =
  n_peers :: nat
  n_agents :: nat
  num_malicious :: nat
  max_message_num_per_round :: nat
  max_view_num :: nat
  max_seq_num :: nat
  total_client_vals :: nat
  target_update_interval :: int
  learner_log_interval :: int

section \<open>Certificate decoding: \<open>list_rev_onehot\<close> (learner.py, lines 299-306)\<close>

text \<open>
  The loop \<open>for idx in range(len(x)//2)\<close> appends one flag per visited index; the
  accumulator \<open>ret\<close> is threaded through the iterations. Tensor elements are modelled as
  real numbers; the test \<open>x[2*idx] == 1\<close> is exact equality with one. Every index read is
  below \<open>len(x)\<close> (lemma \<open>list_rev_onehot_index_in_range\<close>), so the read never raises.
\<close>

fun list_rev_onehot_loop :: "real list \<Rightarrow> nat list \<Rightarrow> int list \<Rightarrow> int list" where
  "list_rev_onehot_loop x [] ret = ret"
| "list_rev_onehot_loop x (idx # rest) ret =
     list_rev_onehot_loop x rest (ret @ [if x ! (2 * idx) = 1 then 1 else 0])"

definition list_rev_onehot :: "real list \<Rightarrow> int list" where
  "list_rev_onehot x = list_rev_onehot_loop x [0..<length x div 2] []"

section \<open>Category decoding: \<open>rev_onehot\<close>\<close>

text \<open>
  Modelled from the spec: the scan behind \<open>rev_onehot\<close> below. It keeps the first
  position of the largest entry seen so far.
\<close>

fun argmax_scan :: "real list \<Rightarrow> nat \<Rightarrow> nat \<Rightarrow> real \<Rightarrow> nat" where
  "argmax_scan [] i best_i best = best_i"
| "argmax_scan (v # vs) i best_i best =
     (if best < v then argmax_scan vs (Suc i) i v else argmax_scan vs (Suc i) best_i best)"

text \<open>
  Modelled from the spec: \<open>rev_onehot\<close> is imported from
  \<open>components.action_selectors\<close>, which is not among the source files. The specification
  gives its contract: a pure function mapping a one-hot (or near one-hot) numeric vector
  to its argmax category index. The specification says nothing about an empty vector; the
  model returns 0 there, and nothing below depends on it. The functions of the learner
  take the decoder as a parameter.
\<close>

definition rev_onehot :: "real list \<Rightarrow> nat" where
  "rev_onehot x = (case x of [] \<Rightarrow> 0 | v # vs \<Rightarrow> argmax_scan vs 1 0 v)"

section \<open>Per-message decoding: \<open>_parse_input_message\<close> (learner.py, lines 232-267)\<close>

text \<open>
  The decoded message is a Python list of seven entries: six category indices and the
  list of certificate flags.
\<close>

datatype field = Category nat | Certificate "int list"

definition parse_input_message :: "(real list \<Rightarrow> nat) \<Rightarrow> args \<Rightarrow> real list \<Rightarrow> field list" where
  "parse_input_message rev_onehot_f a msg_input =
     (let num_msg_type = 10;
          msg = [];
          idx = 0;
          msg_type_input = py_slice idx num_msg_type msg_input;
          msg = msg @ [Category (rev_onehot_f msg_type_input)];
          idx = num_msg_type;
          sender_id_input = py_slice idx (idx + num_malicious a) msg_input;
          msg = msg @ [Category (rev_onehot_f sender_id_input)];
          idx = idx + num_malicious a;
          view_num_input = py_slice idx (idx + max_view_num a) msg_input;
          msg = msg @ [Category (rev_onehot_f view_num_input)];
          idx = idx + max_view_num a;
          seq_num_input = py_slice idx (idx + max_seq_num a) msg_input;
          msg = msg @ [Category (rev_onehot_f seq_num_input)];
          idx = idx + max_seq_num a;
          val_input = py_slice idx (idx + total_client_vals a) msg_input;
          msg = msg @ [Category (rev_onehot_f val_input)];
          idx = idx + total_client_vals a;
          receiver_id_input = py_slice idx (idx + n_peers a) msg_input;
          msg = msg @ [Category (rev_onehot_f receiver_id_input)];
          idx = idx + n_peers a;
          certificate_input = drop idx msg_input;
          msg = msg @ [Certificate (list_rev_onehot certificate_input)]
      in msg)"

text \<open>
  The reading of the specification that the decoder is compared with: the vector is
  consumed from the left, one segment of the given width after the other.
\<close>

fun consume_segments :: "nat list \<Rightarrow> 'a list \<Rightarrow> 'a list list" where
  "consume_segments [] xs = []"
| "consume_segments (w # ws) xs = take w xs # consume_segments ws (drop w xs)"

definition category_widths :: "args \<Rightarrow> nat list" where
  "category_widths a =
     [10, num_malicious a, max_view_num a, max_seq_num a, total_client_vals a, n_peers a]"

definition msg_width :: "args \<Rightarrow> nat" where
  "msg_width a = sum_list (category_widths a) + 2 * n_peers a"

section \<open>The validity mask of \<open>train\<close> (learner.py, lines 50-52)\<close>

text \<open>
  One episode of the batch: \<open>filled_b\<close> and \<open>terminated_b\<close> are the rows
  \<open>batch["filled"][b]\<close> and \<open>batch["terminated"][b]\<close> over the whole time axis (the
  trailing axis of width one is dropped). The flags are 0 or 1; \<open>.float()\<close> represents
  them exactly, so they are modelled as integers. The slice assignment
  \<open>mask[:, 1:] = mask[:, 1:] * (1 - terminated[:, :-1])\<close> evaluates its right-hand side
  before it writes.
\<close>

definition mask_row :: "int list \<Rightarrow> int list \<Rightarrow> int list" where
  "mask_row filled_b terminated_b =
     (let terminated = butlast terminated_b;
          mask = butlast filled_b
      in take 1 mask @ map2 (\<lambda>m t. m * (1 - t)) (drop 1 mask) (butlast terminated))"

section \<open>Attacker-action decoding: \<open>_parse_attacker_actions\<close> (learner.py, lines 185-230)\<close>

text \<open>
  \<open>actions.view(bs, t_len, total_msgs_num, -1)\<close>. The recorded actions are a tensor of
  shape \<open>[bs, t_len, W]\<close>, here a nested list. torch infers the last dimension from the
  number of elements; it raises RuntimeError when the known dimensions multiply to zero
  or do not divide the number of elements. Otherwise every row of width \<open>W\<close> is cut into
  \<open>total_msgs_num\<close> consecutive messages of equal width.
\<close>

definition numel :: "real list list list \<Rightarrow> nat" where
  "numel actions = sum_list (map (\<lambda>ep. sum_list (map length ep)) actions)"

definition view_msgs ::
  "nat \<Rightarrow> nat \<Rightarrow> nat \<Rightarrow> real list list list \<Rightarrow> error + real list list list list" where
  "view_msgs bs t_len total_msgs_num actions =
     (let known = bs * t_len * total_msgs_num in
      if known = 0 \<or> numel actions mod known \<noteq> 0 then Inl RuntimeError
      else
        let w = numel actions div known in
        Inr (map (map (\<lambda>row. map (\<lambda>k. py_slice (k * w) (k * w + w) row) [0..<total_msgs_num]))
               actions))"

text \<open>
  \<open>parsed_actions[bs_idx][t_idx][msg_idx][-1][idx]\<close>: the last entry of a decoded message
  is its certificate, a list that is indexed in turn.
\<close>

definition cert_flag :: "field list \<Rightarrow> nat \<Rightarrow> error + int" where
  "cert_flag msg idx =
     bind_err (py_last msg)
       (\<lambda>f. case f of Certificate flags \<Rightarrow> py_index flags idx | Category n \<Rightarrow> Inl TypeError)"

text \<open>
  The result \<open>ret\<close> is a list of six index tensors followed by the list \<open>ret_cert\<close> of
  \<open>n_peers\<close> tensors; the model returns the two parts as a pair. \<open>bs\<close> and \<open>t_len\<close> are
  \<open>actions.size(0)\<close> and \<open>actions.size(1)\<close>.
\<close>

type_synonym parsed_actions = "field list list list list \<times> int list list list list"

definition parse_attacker_actions ::
  "(real list \<Rightarrow> nat) \<Rightarrow> args \<Rightarrow> nat \<Rightarrow> nat \<Rightarrow> real list list list \<Rightarrow> error + parsed_actions" where
  "parse_attacker_actions rev_onehot_f a bs t_len actions =
     (let total_msgs_num = num_malicious a * max_message_num_per_round a in
      bind_err (view_msgs bs t_len total_msgs_num actions) (\<lambda>actions.
      let parsed_actions =
            map (\<lambda>bs_idx. map (\<lambda>t_idx. map (\<lambda>msg_idx.
                   parse_input_message rev_onehot_f a (actions ! bs_idx ! t_idx ! msg_idx))
                 [0..<total_msgs_num]) [0..<t_len]) [0..<bs]
      in
      bind_err (py_index parsed_actions 0) (\<lambda>p0.
      bind_err (py_index p0 0) (\<lambda>p00.
      bind_err (py_index p00 0) (\<lambda>p000.
      let num_action_types = length p000 in
      bind_err
        (mapM_err (\<lambda>idx. mapM_err (\<lambda>bs_idx. mapM_err (\<lambda>t_idx. mapM_err (\<lambda>msg_idx.
             py_index (parsed_actions ! bs_idx ! t_idx ! msg_idx) idx)
           [0..<total_msgs_num]) [0..<t_len]) [0..<bs]) [0..<num_action_types - 1]) (\<lambda>ret.
      bind_err
        (mapM_err (\<lambda>idx. mapM_err (\<lambda>bs_idx. mapM_err (\<lambda>t_idx. mapM_err (\<lambda>msg_idx.
             cert_flag (parsed_actions ! bs_idx ! t_idx ! msg_idx) idx)
           [0..<total_msgs_num]) [0..<t_len]) [0..<bs]) [0..<n_peers a]) (\<lambda>ret_cert.
      Inr (ret, ret_cert))))))))"

section \<open>The learner's state\<close>

text \<open>
  The fields of \<open>SeparateLearner\<close> that \<open>train\<close> and the persistence routines read or
  write. Network parameters and optimiser states belong to the collaborators and are kept
  abstract. The constructor (lines 14-39) assigns \<open>last_target_update_episode\<close> and
  \<open>critic_training_steps\<close> but never \<open>last_target_update_step\<close>: that attribute is
  \<open>None\<close> until something assigns it, and reading it then raises AttributeError. The
  logger is a collaborator; what it is sent is recorded in \<open>console_log\<close> and
  \<open>stat_log\<close>.
\<close>

record ('mac, 'cr, 'opt) learner =
  mac :: 'mac
  target_mac :: 'mac
  critic :: 'cr
  target_critic :: 'cr
  identifier_optimiser :: 'opt
  attacker_optimiser :: 'opt
  critic_optimiser :: 'opt
  last_target_update_episode :: int
  last_target_update_step :: "int option"
  critic_training_steps :: int
  log_stats_t :: int
  console_log :: "string list"
  stat_log :: "(string \<times> real \<times> int) list"

text \<open>
  \<open>__init__\<close>: the two critics and the three Adam optimisers are built by the
  collaborators and passed in; the target controller is a deep copy of the controller.
\<close>

definition init_learner ::
  "'mac \<Rightarrow> 'cr \<Rightarrow> 'cr \<Rightarrow> 'opt \<Rightarrow> 'opt \<Rightarrow> 'opt \<Rightarrow> args \<Rightarrow> ('mac, 'cr, 'opt) learner" where
  "init_learner mac0 critic0 target_critic0 identifier_opt0 attacker_opt0 critic_opt0 a =
     \<lparr>mac = mac0, target_mac = mac0, critic = critic0, target_critic = target_critic0,
      identifier_optimiser = identifier_opt0, attacker_optimiser = attacker_opt0,
      critic_optimiser = critic_opt0,
      last_target_update_episode = 0, last_target_update_step = None,
      critic_training_steps = 0,
      log_stats_t = - learner_log_interval a - 1,
      console_log = [], stat_log = []\<rparr>"

section \<open>Episode batches\<close>

text \<open>
  The keys of the batch that \<open>train\<close> reads, each over the whole time axis of length
  \<open>max_seq_length\<close>; a trailing axis of width one is dropped.
\<close>

record batch =
  batch_size :: nat
  max_seq_length :: nat
  filled :: "int list list"
  terminated :: "int list list"
  attacker_action :: "real list list list"
  identifier_action :: "nat list list list"
  attacker_reward :: "real list list"
  identifier_reward :: "real list list"

section \<open>Checkpoint files\<close>

text \<open>
  \<open>th.save\<close> and \<open>th.load\<close> on a directory that exists: a file system maps a path to what
  was saved there. A file holds the state of a controller, the state dictionary of a
  critic, or the state of an optimiser.
\<close>

datatype ('mac, 'cr, 'opt) saved = SavedMac 'mac | SavedCritic 'cr | SavedOpt 'opt

type_synonym ('mac, 'cr, 'opt) files = "string \<Rightarrow> ('mac, 'cr, 'opt) saved option"

definition th_save :: "('mac, 'cr, 'opt) saved \<Rightarrow> string \<Rightarrow> ('mac, 'cr, 'opt) files \<Rightarrow> ('mac, 'cr, 'opt) files" where
  "th_save obj file_path fs = fs(file_path \<mapsto> obj)"

definition th_load :: "('mac, 'cr, 'opt) files \<Rightarrow> string \<Rightarrow> error + ('mac, 'cr, 'opt) saved" where
  "th_load fs file_path = (case fs file_path of None \<Rightarrow> Inl FileNotFoundError | Some obj \<Rightarrow> Inr obj)"

text \<open>\<open>load_state_dict\<close> raises when it is handed something that is not a state of its kind.\<close>

definition critic_load_state_dict :: "('mac, 'cr, 'opt) saved \<Rightarrow> error + 'cr" where
  "critic_load_state_dict obj = (case obj of SavedCritic cr \<Rightarrow> Inr cr | _ \<Rightarrow> Inl RuntimeError)"

definition optimiser_load_state_dict :: "('mac, 'cr, 'opt) saved \<Rightarrow> error + 'opt" where
  "optimiser_load_state_dict obj = (case obj of SavedOpt opt \<Rightarrow> Inr opt | _ \<Rightarrow> Inl RuntimeError)"

section \<open>Collaborators\<close>

text \<open>
  The controller, the critic, the optimisers, the target builder and the tensor
  arithmetic of torch are not part of the source files. Each call into them is a function
  of this record; a call that raises returns the exception. Their results are tensors of
  reals or abstract states. Where the code runs several tensor operations in a row with
  nothing of its own in between, one function stands for the run; the comment at its use
  names the lines.
\<close>

record ('mac, 'cr, 'opt, 'h, 'o) collaborators =
  rev_onehot_c :: "real list \<Rightarrow> nat"
  build_targets :: "'cr \<Rightarrow> batch \<Rightarrow> int list list list \<Rightarrow> error + real list list list"
  critic_init_hidden :: "'cr \<Rightarrow> nat \<Rightarrow> 'h"
  critic_forward :: "'cr \<Rightarrow> batch \<Rightarrow> 'h \<Rightarrow> nat \<Rightarrow> error + (real list list \<times> 'h)"
  critic_fit ::
    "'cr \<Rightarrow> 'opt \<Rightarrow> real list list list \<Rightarrow> real list list list \<Rightarrow> nat \<Rightarrow> int list list
      \<Rightarrow> error + ('cr \<times> 'opt \<times> real \<times> real)"
  abs_td_sum ::
    "real list list list \<Rightarrow> real list list list \<Rightarrow> nat \<Rightarrow> int list list \<Rightarrow> error + real"
  masked_sum :: "real list list \<Rightarrow> int list list \<Rightarrow> error + real"
  critic_load_state :: "'cr \<Rightarrow> 'cr \<Rightarrow> 'cr"
  mac_init_hidden :: "'mac \<Rightarrow> nat \<Rightarrow> 'mac"
  mac_forward :: "'mac \<Rightarrow> batch \<Rightarrow> nat \<Rightarrow> error + ('o \<times> 'mac)"
  mac_load_state :: "'mac \<Rightarrow> 'mac \<Rightarrow> 'mac"
  mac_save_models :: "'mac \<Rightarrow> string \<Rightarrow> ('mac, 'cr, 'opt) files \<Rightarrow> ('mac, 'cr, 'opt) files"
  mac_load_models :: "'mac \<Rightarrow> string \<Rightarrow> ('mac, 'cr, 'opt) files \<Rightarrow> error + 'mac"
  identifier_fit ::
    "'mac \<Rightarrow> 'opt \<Rightarrow> 'o list \<Rightarrow> batch \<Rightarrow> real list list list \<Rightarrow> int list list
      \<Rightarrow> error + ('mac \<times> 'opt \<times> real \<times> real)"
  attacker_out_len :: "'o \<Rightarrow> nat"
  attacker_fit ::
    "'mac \<Rightarrow> 'opt \<Rightarrow> 'o list \<Rightarrow> parsed_actions \<Rightarrow> nat \<Rightarrow> real list list list
      \<Rightarrow> int list list \<Rightarrow> int list list list \<Rightarrow> error + ('mac \<times> 'opt \<times> real \<times> real)"

section \<open>Exceptions that leave a method of the learner\<close>

text \<open>
  A method that raises has already mutated the learner; the exception carries the state
  at the moment it is raised.
\<close>

definition attempt :: "error + 'a \<Rightarrow> 's \<Rightarrow> ('a \<Rightarrow> (error \<times> 's) + 'b) \<Rightarrow> (error \<times> 's) + 'b" where
  "attempt r s f = (case r of Inl e \<Rightarrow> Inl (e, s) | Inr x \<Rightarrow> f x)"

text \<open>
  Reading a name. \<open>_train_critic\<close> can read the names it binds and the names of the
  module; no builtin is called \<open>targets_t\<close>. A name that is not bound raises NameError.
\<close>

definition module_globals :: "string list" where
  "module_globals =
     [''copy'', ''rev_onehot'', ''Critic'', ''EpisodeBatch'', ''th'', ''Adam'',
      ''rev_list_onehot'', ''build_td_lambda_targets'', ''SeparateLearner'',
      ''list_rev_onehot'']"

definition train_critic_locals :: "string list" where
  "train_critic_locals =
     [''self'', ''batch'', ''rewards'', ''terminated'', ''mask'', ''target_critic_outs'',
      ''target_critic_hidden'', ''t'', ''out'', ''targets'', ''q_vals'', ''running_log'',
      ''critic_hidden'', ''mask_t'', ''q_t'', ''td_error'', ''masked_td_error'', ''loss'',
      ''grad_norm'', ''mask_elems'']"

definition lookup_name :: "string list \<Rightarrow> string \<Rightarrow> 'a \<Rightarrow> error + 'a" where
  "lookup_name scope name v = (if List.member scope name then Inr v else Inl NameError)"

text \<open>
  Reading an attribute of a tensor: the methods of \<open>torch.Tensor\<close> that the module calls.
  torch defines no attribute \<open>clnoe\<close>.
\<close>

definition tensor_attributes :: "string list" where
  "tensor_attributes =
     [''float'', ''clone'', ''repeat'', ''view'', ''squeeze'', ''sum'', ''detach'',
      ''backward'', ''item'', ''expand'', ''size'', ''abs'', ''shape'']"

definition tensor_getattr :: "string \<Rightarrow> 'a \<Rightarrow> error + 'a" where
  "tensor_getattr name v = (if List.member tensor_attributes name then Inr v else Inl AttributeError)"

text \<open>Python's true division of two numbers raises on a zero divisor.\<close>

definition py_truediv :: "real \<Rightarrow> real \<Rightarrow> error + real" where
  "py_truediv x y = (if y = 0 then Inl ZeroDivisionError else Inr (x / y))"

section \<open>Critic training: \<open>_train_critic\<close> (learner.py, lines 127-183)\<close>

record running_log =
  critic_loss :: "real list"
  critic_grad_norm :: "real list"
  td_error_abs :: "real list"
  target_mean :: "real list"
  q_taken_mean :: "real list"

text \<open>The learner together with the local variables the backward loop updates.\<close>

record ('mac, 'cr, 'opt, 'h) critic_loop_state =
  lrn :: "('mac, 'cr, 'opt) learner"
  critic_hidden :: 'h
  q_vals :: "real list list list"
  running :: running_log

text \<open>\<open>mask[:, t].expand(-1, n_agents)\<close> on the mask of shape \<open>[bs, T-1, n_agents]\<close>, and \<open>.sum()\<close>.\<close>

definition mask_at :: "int list list list \<Rightarrow> nat \<Rightarrow> int list list" where
  "mask_at critic_mask t = map (\<lambda>ep. ep ! t) critic_mask"

definition tensor_sum :: "int list list \<Rightarrow> int" where
  "tensor_sum m = sum_list (map sum_list m)"

text \<open>
  One iteration of \<open>for t in reversed(range(rewards.size(1)))\<close>. Lines 162-173 (error,
  loss, backward pass, clipping, optimiser step) are \<open>critic_fit\<close>; it returns the critic,
  the optimiser state, \<open>loss.item()\<close> and the gradient norm.
\<close>

definition critic_step ::
  "('mac, 'cr, 'opt, 'h, 'o) collaborators \<Rightarrow> batch \<Rightarrow> real list list list \<Rightarrow> int list list list
    \<Rightarrow> nat \<Rightarrow> ('mac, 'cr, 'opt, 'h) critic_loop_state
    \<Rightarrow> (error \<times> ('mac, 'cr, 'opt, 'h) critic_loop_state) + ('mac, 'cr, 'opt, 'h) critic_loop_state" where
  "critic_step c b targets critic_mask t s =
     (let mask_t = mask_at critic_mask t in
      if tensor_sum mask_t = 0 then Inr s
      else
        attempt (critic_forward c (critic (lrn s)) b (critic_hidden s) t) s (\<lambda>(q_t, h).
        let s = s\<lparr>critic_hidden := h, q_vals := map2 (\<lambda>ep q. ep[t := q]) (q_vals s) q_t\<rparr> in
        attempt (critic_fit c (critic (lrn s)) (critic_optimiser (lrn s)) (q_vals s) targets t mask_t) s
          (\<lambda>(critic', opt', loss, grad_norm).
        let s = s\<lparr>lrn := (lrn s)\<lparr>critic := critic', critic_optimiser := opt',
                      critic_training_steps := critic_training_steps (lrn s) + 1\<rparr>\<rparr>;
            s = s\<lparr>running := (running s)\<lparr>critic_loss := critic_loss (running s) @ [loss]\<rparr>\<rparr>;
            s = s\<lparr>running := (running s)\<lparr>critic_grad_norm := critic_grad_norm (running s) @ [grad_norm]\<rparr>\<rparr>;
            mask_elems = real_of_int (tensor_sum mask_t)
        in
        attempt (bind_err (abs_td_sum c (q_vals s) targets t mask_t) (\<lambda>x. py_truediv x mask_elems)) s (\<lambda>v.
        let s = s\<lparr>running := (running s)\<lparr>td_error_abs := td_error_abs (running s) @ [v]\<rparr>\<rparr> in
        attempt (bind_err (masked_sum c q_t mask_t) (\<lambda>x. py_truediv x mask_elems)) s (\<lambda>v.
        let s = s\<lparr>running := (running s)\<lparr>q_taken_mean := q_taken_mean (running s) @ [v]\<rparr>\<rparr> in
        attempt (lookup_name (train_critic_locals @ module_globals) ''targets_t''
                   (map (\<lambda>ep. ep ! t) targets)) s (\<lambda>targets_t.
        attempt (bind_err (masked_sum c targets_t mask_t) (\<lambda>x. py_truediv x mask_elems)) s (\<lambda>v.
        let s = s\<lparr>running := (running s)\<lparr>target_mean := target_mean (running s) @ [v]\<rparr>\<rparr> in
        Inr s)))))))"

fun critic_loop ::
  "('mac, 'cr, 'opt, 'h, 'o) collaborators \<Rightarrow> batch \<Rightarrow> real list list list \<Rightarrow> int list list list
    \<Rightarrow> nat list \<Rightarrow> ('mac, 'cr, 'opt, 'h) critic_loop_state
    \<Rightarrow> (error \<times> ('mac, 'cr, 'opt, 'h) critic_loop_state) + ('mac, 'cr, 'opt, 'h) critic_loop_state" where
  "critic_loop c b targets critic_mask [] s = Inr s"
| "critic_loop c b targets critic_mask (t # ts) s =
     (case critic_step c b targets critic_mask t s of
        Inl es \<Rightarrow> Inl es
      | Inr s' \<Rightarrow> critic_loop c b targets critic_mask ts s')"

text \<open>
  Lines 129-139 (joint reward, roll-out of the target critic, TD(\<open>\<lambda>\<close>) targets) are
  \<open>build_targets\<close>. \<open>q_vals\<close> starts as zeros of shape \<open>[bs, T-1, 2]\<close>; \<open>rewards.size(1)\<close>
  is \<open>max_seq_length - 1\<close>. The running log is a local variable: an exception that leaves
  the method carries the learner only.
\<close>

definition empty_log :: running_log where
  "empty_log = \<lparr>critic_loss = [], critic_grad_norm = [], td_error_abs = [],
                target_mean = [], q_taken_mean = []\<rparr>"

definition train_critic ::
  "('mac, 'cr, 'opt, 'h, 'o) collaborators \<Rightarrow> batch \<Rightarrow> int list list list \<Rightarrow> ('mac, 'cr, 'opt) learner
    \<Rightarrow> (error \<times> ('mac, 'cr, 'opt) learner) + ('mac, 'cr, 'opt, 'h) critic_loop_state" where
  "train_critic c b critic_mask st =
     attempt (build_targets c (target_critic st) b critic_mask) st (\<lambda>targets.
       let s = \<lparr>lrn = st,
                critic_hidden = critic_init_hidden c (critic st) (batch_size b),
                q_vals = replicate (batch_size b) (replicate (max_seq_length b - 1) [0, 0]),
                running = empty_log\<rparr>
       in case critic_loop c b targets critic_mask (rev [0..<max_seq_length b - 1]) s of
            Inl (e, s') \<Rightarrow> Inl (e, lrn s')
          | Inr s' \<Rightarrow> Inr s')"

section \<open>Target synchronisation and the cadence checks (learner.py, lines 112-118, 269-272)\<close>

definition update_targets ::
  "('mac, 'cr, 'opt, 'h, 'o) collaborators \<Rightarrow> ('mac, 'cr, 'opt) learner \<Rightarrow> ('mac, 'cr, 'opt) learner" where
  "update_targets c st =
     st\<lparr>target_mac := mac_load_state c (target_mac st) (mac st),
        target_critic := critic_load_state c (target_critic st) (critic st),
        console_log := console_log st @ [''Updated target network'']\<rparr>"

definition getattr_last_target_update_step :: "('mac, 'cr, 'opt) learner \<Rightarrow> error + int" where
  "getattr_last_target_update_step st =
     (case last_target_update_step st of None \<Rightarrow> Inl AttributeError | Some v \<Rightarrow> Inr v)"

definition sync_checks ::
  "('mac, 'cr, 'opt, 'h, 'o) collaborators \<Rightarrow> args \<Rightarrow> int \<Rightarrow> ('mac, 'cr, 'opt) learner
    \<Rightarrow> (error \<times> ('mac, 'cr, 'opt) learner) + ('mac, 'cr, 'opt) learner" where
  "sync_checks c a episode_num st =
     attempt (getattr_last_target_update_step st) st (\<lambda>last_step.
     attempt (py_truediv (real_of_int (critic_training_steps st - last_step))
                (real_of_int (target_update_interval a))) st (\<lambda>r.
     let st = (if r \<ge> 1
               then (update_targets c st)\<lparr>last_target_update_step := Some (critic_training_steps st)\<rparr>
               else st) in
     attempt (py_truediv (real_of_int (episode_num - last_target_update_episode st))
                (real_of_int (target_update_interval a))) st (\<lambda>r.
     let st = (if r \<ge> 1
               then (update_targets c st)\<lparr>last_target_update_episode := episode_num\<rparr>
               else st) in
     Inr st)))"

section \<open>One training update: \<open>train\<close> (learner.py, lines 41-125)\<close>

text \<open>Lines 62-66: the controller is rolled over the whole time axis, its outputs collected.\<close>

fun mac_rollout ::
  "('mac, 'cr, 'opt, 'h, 'o) collaborators \<Rightarrow> batch \<Rightarrow> nat list \<Rightarrow> 'o list \<Rightarrow> ('mac, 'cr, 'opt) learner
    \<Rightarrow> (error \<times> ('mac, 'cr, 'opt) learner) + ('o list \<times> ('mac, 'cr, 'opt) learner)" where
  "mac_rollout c b [] outs st = Inr (outs, st)"
| "mac_rollout c b (t # ts) outs st =
     attempt (mac_forward c (mac st) b t) st (\<lambda>(out, mac').
       mac_rollout c b ts (outs @ [out]) (st\<lparr>mac := mac'\<rparr>))"

text \<open>Lines 120-125.\<close>

definition log_block ::
  "args \<Rightarrow> int \<Rightarrow> real \<Rightarrow> real \<Rightarrow> real \<Rightarrow> real \<Rightarrow> ('mac, 'cr, 'opt) learner \<Rightarrow> ('mac, 'cr, 'opt) learner" where
  "log_block a t_env identifier_loss identifier_grad_norm attacker_loss attacker_grad_norm st =
     (if t_env - log_stats_t st \<ge> learner_log_interval a
      then st\<lparr>stat_log := stat_log st @
                 [(''identifier_actor_loss'', identifier_loss, t_env),
                  (''identifier_grad_norm'', identifier_grad_norm, t_env),
                  (''attacker_actor_loss'', attacker_loss, t_env),
                  (''attacker_grad_norm'', attacker_grad_norm, t_env)],
              log_stats_t := t_env\<rparr>
      else st)"

text \<open>
  Lines 69-83 (identifier loss, backward pass, clipping, optimiser step) are
  \<open>identifier_fit\<close>; lines 88-110 (attacker log-probabilities, loss, backward pass,
  clipping, optimiser step) are \<open>attacker_fit\<close>. Each returns the controller, the
  optimiser state, the loss and the gradient norm.
\<close>

definition train ::
  "('mac, 'cr, 'opt, 'h, 'o) collaborators \<Rightarrow> args \<Rightarrow> batch \<Rightarrow> int \<Rightarrow> int \<Rightarrow> ('mac, 'cr, 'opt) learner
    \<Rightarrow> (error \<times> ('mac, 'cr, 'opt) learner) + ('mac, 'cr, 'opt) learner" where
  "train c a b t_env episode_num st =
     (let bs = batch_size b;
          b_len = max_seq_length b;
          attacker_actions = map butlast (attacker_action b)
      in
      attempt (parse_attacker_actions (rev_onehot_c c) a bs (b_len - 1) attacker_actions) st
        (\<lambda>attacker_actions.
      let mask = map2 mask_row (filled b) (terminated b);
          critic_mask = map (map (replicate (n_agents a))) mask
      in
      case train_critic c b critic_mask st of
        Inl es \<Rightarrow> Inl es
      | Inr cl \<Rightarrow>
      let st = lrn cl;
          st = st\<lparr>mac := mac_init_hidden c (mac st) bs\<rparr>
      in
      case mac_rollout c b [0..<max_seq_length b] [] st of
        Inl es \<Rightarrow> Inl es
      | Inr (outs, st) \<Rightarrow>
      attempt (identifier_fit c (mac st) (identifier_optimiser st) outs b (q_vals cl) mask) st
        (\<lambda>(mac', opt', identifier_loss, identifier_grad_norm).
      let st = st\<lparr>mac := mac', identifier_optimiser := opt'\<rparr> in
      attempt (py_index outs 0) st (\<lambda>out0.
      let num_action_types = attacker_out_len c out0;
          total_msgs_num = num_malicious a * max_message_num_per_round a
      in
      attempt (tensor_getattr ''clnoe'' mask) st (\<lambda>cloned.
      let attacker_mask = map (map (replicate total_msgs_num)) cloned in
      attempt (attacker_fit c (mac st) (attacker_optimiser st) outs attacker_actions
                 num_action_types (q_vals cl) mask attacker_mask) st
        (\<lambda>(mac', opt', attacker_loss, attacker_grad_norm).
      let st = st\<lparr>mac := mac', attacker_optimiser := opt'\<rparr> in
      case sync_checks c a episode_num st of
        Inl es \<Rightarrow> Inl es
      | Inr st \<Rightarrow>
          Inr (log_block a t_env identifier_loss identifier_grad_norm
                 attacker_loss attacker_grad_norm st)))))))"

section \<open>Persistence: \<open>save_models\<close> and \<open>load_models\<close> (learner.py, lines 280-296)\<close>

definition save_models ::
  "('mac, 'cr, 'opt, 'h, 'o) collaborators \<Rightarrow> ('mac, 'cr, 'opt) learner \<Rightarrow> string
    \<Rightarrow> ('mac, 'cr, 'opt) files \<Rightarrow> ('mac, 'cr, 'opt) files" where
  "save_models c st path fs =
     (let fs = mac_save_models c (mac st) path fs;
          fs = th_save (SavedCritic (critic st)) (path @ ''/critic.th'') fs;
          fs = th_save (SavedCritic (target_critic st)) (path @ ''/tar_critic.th'') fs;
          fs = th_save (SavedOpt (identifier_optimiser st)) (path @ ''/identifier_critic_opt.th'') fs;
          fs = th_save (SavedOpt (critic_optimiser st)) (path @ ''/critic_opt.th'') fs;
          fs = th_save (SavedOpt (attacker_optimiser st)) (path @ ''/attacker_opt.th'') fs
      in fs)"

definition load_models ::
  "('mac, 'cr, 'opt, 'h, 'o) collaborators \<Rightarrow> ('mac, 'cr, 'opt) learner \<Rightarrow> string
    \<Rightarrow> ('mac, 'cr, 'opt) files \<Rightarrow> (error \<times> ('mac, 'cr, 'opt) learner) + ('mac, 'cr, 'opt) learner" where
  "load_models c st path fs =
     attempt (mac_load_models c (mac st) path fs) st (\<lambda>m.
     let st = st\<lparr>mac := m\<rparr> in
     attempt (mac_load_models c (target_mac st) path fs) st (\<lambda>m.
     let st = st\<lparr>target_mac := m\<rparr> in
     attempt (bind_err (th_load fs (path @ ''/critic.th'')) critic_load_state_dict) st (\<lambda>cr.
     let st = st\<lparr>critic := cr\<rparr> in
     attempt (bind_err (th_load fs (path @ ''/tar_critic.th'')) critic_load_state_dict) st (\<lambda>cr.
     let st = st\<lparr>target_critic := cr\<rparr> in
     attempt (bind_err (th_load fs (path @ ''/identifier_opt.th'')) optimiser_load_state_dict) st (\<lambda>opt.
     let st = st\<lparr>identifier_optimiser := opt\<rparr> in
     attempt (bind_err (th_load fs (path @ ''/attacker_opt.th'')) optimiser_load_state_dict) st (\<lambda>opt.
     let st = st\<lparr>attacker_optimiser := opt\<rparr> in
     attempt (bind_err (th_load fs (path @ ''/critic_opt.th'')) optimiser_load_state_dict) st (\<lambda>opt.
     let st = st\<lparr>critic_optimiser := opt\<rparr> in
     Inr st)))))))"

section \<open>The graph-attention agent (dgn_agent.py)\<close>

subsection \<open>Input width: \<open>DGNAgent._get_input_shape\<close> (lines 71-79)\<close>

record scheme =
  obs_vshape :: nat
  actions_onehot_vshape :: "nat list"

text \<open>The fields of \<open>args\<close> that the agent reads; \<open>agent_type\<close> is \<open>args.type\<close>.\<close>

record dgn_args =
  obs_last_action :: bool
  obs_agent_id :: bool
  agent_type :: string
  dgn_n_agents :: nat
  hidden_dim :: nat
  n_actions :: nat

text \<open>
  \<open>__init__\<close> (lines 54-61) calls \<open>_get_input_shape\<close> right after \<open>self.args = args\<close>;
  nothing else has been assigned to the agent, and no line of the class assigns
  \<open>self.n_agents\<close>. Reading an attribute the agent does not have raises AttributeError
  (\<open>torch.nn.Module.__getattr__\<close>).
\<close>

definition dgn_agent_attributes :: "string list" where
  "dgn_agent_attributes = [''args'']"

definition dgn_getattr :: "string \<Rightarrow> 'a \<Rightarrow> error + 'a" where
  "dgn_getattr name v = (if List.member dgn_agent_attributes name then Inr v else Inl AttributeError)"

definition get_input_shape :: "dgn_args \<Rightarrow> scheme \<Rightarrow> error + nat" where
  "get_input_shape a sch =
     (let input_shape = obs_vshape sch in
      bind_err (if obs_last_action a
                then bind_err (py_index (actions_onehot_vshape sch) 0) (\<lambda>w. Inr (input_shape + w))
                else Inr input_shape) (\<lambda>input_shape.
      bind_err (if obs_agent_id a
                then bind_err (dgn_getattr ''n_agents'' (dgn_n_agents a)) (\<lambda>n. Inr (input_shape + n))
                else Inr input_shape) (\<lambda>input_shape.
      bind_err (if agent_type a = ''pq''
                then bind_err (dgn_getattr ''n_agents'' (dgn_n_agents a)) (\<lambda>n. Inr (input_shape + n * n * 2))
                else Inr input_shape) (\<lambda>input_shape.
      Inr input_shape))))"

text \<open>The width the specification documents, for comparison.\<close>

definition documented_input_shape :: "dgn_args \<Rightarrow> scheme \<Rightarrow> nat" where
  "documented_input_shape a sch =
     obs_vshape sch
     + (if obs_last_action a then hd (actions_onehot_vshape sch) else 0)
     + (if obs_agent_id a then dgn_n_agents a else 0)
     + (if agent_type a = ''pq'' then 2 * dgn_n_agents a * dgn_n_agents a else 0)"

subsection \<open>Attention block: \<open>AttModel.forward\<close> (lines 29-40)\<close>

text \<open>
  A float is finite, or it is one of \<open>inf\<close>, \<open>-inf\<close> and NaN. The model covers the runs of
  the block in which every tensor entry stays finite. A finite float is modelled as the
  real number it stands for and arithmetic on finite floats as exact (rounding is left
  out). As soon as a value could leave the finite range of \<open>float32\<close>, the default type of
  torch, a function of the model returns \<open>None\<close>: from there on the code computes with
  \<open>inf\<close> and NaN (\<open>inf * 0\<close> is NaN in the masking of line 35), and the model says
  nothing about it.

  One element of the batch is modelled: \<open>x\<close> has one row per agent, \<open>msk\<close> one row per
  agent and one column per neighbour (\<open>torch.bmm\<close> and the softmax treat the elements of
  a batch independently; a two-dimensional \<open>x\<close> is a batch of one).
\<close>

definition float_max :: real where
  "float_max = (2 - 1 / 2 ^ 23) * 2 ^ 127"

text \<open>
  A sum of floats stays finite, in whatever order torch adds its terms, when the
  absolute values of the terms add up to at most \<open>float_max\<close>.
\<close>

definition sum_in_range :: "real list \<Rightarrow> bool" where
  "sum_in_range terms = (sum_list (map abs terms) \<le> float_max)"

record linear =
  weight :: "real list list"
  bias :: "real list"

definition dot :: "real list \<Rightarrow> real list \<Rightarrow> real" where
  "dot xs ys = sum_list (map2 (*) xs ys)"

text \<open>\<open>nn.Linear\<close> computes \<open>W x + b\<close>: its value on one row, and whether it stays finite.\<close>

definition linear_apply :: "linear \<Rightarrow> real list \<Rightarrow> real list" where
  "linear_apply l x = map2 (\<lambda>w b. dot w x + b) (weight l) (bias l)"

definition linear_in_range :: "linear \<Rightarrow> real list \<Rightarrow> bool" where
  "linear_in_range l x = list_all (\<lambda>(w, b). sum_in_range (map2 (*) w x @ [b])) (zip (weight l) (bias l))"

definition relu :: "real \<Rightarrow> real" where
  "relu z = max 0 z"

record att_model =
  fcv :: linear
  fck :: linear
  fcq :: linear
  fcout :: linear

text \<open>\<open>F.relu(self.fc(x))\<close> on every agent's row: its finite value, and the operation.\<close>

definition project_values :: "linear \<Rightarrow> real list list \<Rightarrow> real list list" where
  "project_values l x = map (\<lambda>x_i. map relu (linear_apply l x_i)) x"

definition project :: "linear \<Rightarrow> real list list \<Rightarrow> real list list option" where
  "project l x = (if list_all (linear_in_range l) x then Some (project_values l x) else None)"

text \<open>
  \<open>F.softmax(..., dim=2)\<close> on one row of finite logits: over the neighbour axis. torch
  subtracts the largest logit of the row before it exponentiates, so nothing overflows
  and the sum is at least one.
\<close>

definition softmax :: "real list \<Rightarrow> real list" where
  "softmax ls = map (\<lambda>l. exp l / sum_list (map exp ls)) ls"

text \<open>
  \<open>torch.mul(torch.bmm(q, k), mask) - 9e15 * (1 - mask)\<close>, where \<open>k\<close> in the code is the
  transposed key matrix: entry \<open>(i, j)\<close> of the product is the dot product of query \<open>i\<close>
  and key \<open>j\<close>. \<open>logit_values\<close> is the finite value; \<open>att_logits\<close> is the operation, which
  has a finite result when, for every pair, the dot product, its product with the mask
  entry, the bias and their difference stay finite.
\<close>

definition logit_values :: "real list list \<Rightarrow> real list list \<Rightarrow> real list list \<Rightarrow> real list list" where
  "logit_values q k msk =
     map (\<lambda>i. map (\<lambda>j. dot (q ! i) (k ! j) * (msk ! i ! j) - 9 * 10 ^ 15 * (1 - msk ! i ! j))
                [0..<length k])
         [0..<length q]"

definition logit_in_range :: "real list \<Rightarrow> real list \<Rightarrow> real \<Rightarrow> bool" where
  "logit_in_range q_i k_j m =
     (sum_in_range (map2 (*) q_i k_j)
      \<and> \<bar>dot q_i k_j * m\<bar> \<le> float_max
      \<and> \<bar>9 * 10 ^ 15 * (1 - m)\<bar> \<le> float_max
      \<and> \<bar>dot q_i k_j * m - 9 * 10 ^ 15 * (1 - m)\<bar> \<le> float_max)"

definition att_logits :: "real list list \<Rightarrow> real list list \<Rightarrow> real list list \<Rightarrow> real list list option" where
  "att_logits q k msk =
     (if list_all (\<lambda>i. list_all (\<lambda>j. logit_in_range (q ! i) (k ! j) (msk ! i ! j)) [0..<length k])
           [0..<length q]
      then Some (logit_values q k msk) else None)"

text \<open>The tensor \<open>att\<close> of line 35: queries, keys, logits, softmax.\<close>

definition weight_values :: "att_model \<Rightarrow> real list list \<Rightarrow> real list list \<Rightarrow> real list list" where
  "weight_values m x msk =
     (let q = project_values (fcq m) x;
          k = project_values (fck m) x
      in map softmax (logit_values q k msk))"

definition att_weights :: "att_model \<Rightarrow> real list list \<Rightarrow> real list list \<Rightarrow> real list list option" where
  "att_weights m x msk =
     Option.bind (project (fcq m) x) (\<lambda>q.
     Option.bind (project (fck m) x) (\<lambda>k.
     map_option (map softmax) (att_logits q k msk)))"

text \<open>
  One row of \<open>torch.bmm(att, v)\<close>: the values weighted by the attention of one agent. The
  weights are non-negative and sum to one, so the result lies between the smallest and
  the largest value and stays finite.
\<close>

definition weighted_values :: "real list \<Rightarrow> real list list \<Rightarrow> nat \<Rightarrow> real list" where
  "weighted_values att_i v width = map (\<lambda>d. sum_list (map2 (\<lambda>a v_j. a * v_j ! d) att_i v)) [0..<width]"

definition aggregate_values :: "att_model \<Rightarrow> real list list \<Rightarrow> real list list \<Rightarrow> real list list" where
  "aggregate_values m x msk =
     (let v = project_values (fcv m) x;
          att = weight_values m x msk
      in map (\<lambda>att_i. weighted_values att_i v (length (bias (fcv m)))) att)"

definition forward_values :: "att_model \<Rightarrow> real list list \<Rightarrow> real list list \<Rightarrow> real list list" where
  "forward_values m x msk = project_values (fcout m) (aggregate_values m x msk)"

text \<open>\<open>forward\<close>: values, queries and keys, the attention, the aggregation, the output layer.\<close>

definition att_forward :: "att_model \<Rightarrow> real list list \<Rightarrow> real list list \<Rightarrow> real list list option" where
  "att_forward m x msk =
     Option.bind (project (fcv m) x) (\<lambda>v.
     Option.bind (att_weights m x msk) (\<lambda>att.
     let out = map (\<lambda>att_i. weighted_values att_i v (length (bias (fcv m)))) att in
     project (fcout m) out))"

text \<open>
  How far the output of an agent may move when the value projection of one other agent
  changes from that of \<open>x ! j\<close> to that of \<open>y\<close>: per output unit \<open>e\<close>, the absolute
  weights of the output layer times the absolute changes of the value entries.
\<close>

definition value_change :: "att_model \<Rightarrow> real list \<Rightarrow> real list \<Rightarrow> nat \<Rightarrow> real" where
  "value_change m x_j y e =
     sum_list (map2 (\<lambda>w d. \<bar>w\<bar> * \<bar>map relu (linear_apply (fcv m) y) ! d
                                  - map relu (linear_apply (fcv m) x_j) ! d\<bar>)
                 (weight (fcout m) ! e) [0..<length (bias (fcv m))])"

section \<open>What a call of \<open>train\<close> is compared with\<close>

text \<open>
  The mask handed to the critic (lines 50-54) and the sum the backward loop tests at
  step \<open>t\<close> (lines 154-156), as functions of the configuration and the batch.
\<close>

definition critic_mask_of :: "args \<Rightarrow> batch \<Rightarrow> int list list list" where
  "critic_mask_of a b = map (map (replicate (n_agents a))) (map2 mask_row (filled b) (terminated b))"

definition step_mask_sum :: "args \<Rightarrow> batch \<Rightarrow> nat \<Rightarrow> int" where
  "step_mask_sum a b t = tensor_sum (mask_at (critic_mask_of a b) t)"

text \<open>
  The parts of the learner that only the attacker update, the target synchronisation and
  the logging block write.
\<close>

definition untouched :: "('mac, 'cr, 'opt) learner \<Rightarrow> ('mac, 'cr, 'opt) learner \<Rightarrow> bool" where
  "untouched st st' =
     (attacker_optimiser st' = attacker_optimiser st
      \<and> target_mac st' = target_mac st
      \<and> target_critic st' = target_critic st
      \<and> last_target_update_episode st' = last_target_update_episode st
      \<and> last_target_update_step st' = last_target_update_step st
      \<and> log_stats_t st' = log_stats_t st
      \<and> console_log st' = console_log st
      \<and> stat_log st' = stat_log st)"

text \<open>Every call into a collaborator returns instead of raising.\<close>

definition returns_normally :: "('mac, 'cr, 'opt, 'h, 'o) collaborators \<Rightarrow> bool" where
  "returns_normally c =
     ((\<forall>cr b m. \<not> isl (build_targets c cr b m))
      \<and> (\<forall>cr b h t. \<not> isl (critic_forward c cr b h t))
      \<and> (\<forall>cr opt q tg t m. \<not> isl (critic_fit c cr opt q tg t m))
      \<and> (\<forall>q tg t m. \<not> isl (abs_td_sum c q tg t m))
      \<and> (\<forall>x m. \<not> isl (masked_sum c x m))
      \<and> (\<forall>m b t. \<not> isl (mac_forward c m b t))
      \<and> (\<forall>m opt outs b q msk. \<not> isl (identifier_fit c m opt outs b q msk)))"

section \<open>Example inputs\<close>

definition example_args :: args where
  "example_args =
     \<lparr>n_peers = 2, n_agents = 2, num_malicious = 2, max_message_num_per_round = 1,
      max_view_num = 1, max_seq_num = 1, total_client_vals = 1,
      target_update_interval = 2, learner_log_interval = 1\<rparr>"

definition example_msg :: "real list" where
  "example_msg = [0, 0, 0, 1, 0, 0, 0, 0, 0, 0,  0, 1,  1,  1,  1,  1, 0,  1, 0,  0, 1]"

definition small_args :: args where
  "small_args =
     \<lparr>n_peers = 1, n_agents = 2, num_malicious = 1, max_message_num_per_round = 1,
      max_view_num = 1, max_seq_num = 1, total_client_vals = 1,
      target_update_interval = 1, learner_log_interval = 1\<rparr>"

definition small_msg :: "real list" where
  "small_msg = [0, 0, 1, 0, 0, 0, 0, 0, 0, 0,  1,  1,  1,  1,  1,  1, 0]"

text \<open>
  Collaborators that always return: parameters and optimiser states are counters of the
  updates applied to them.
\<close>

definition example_collab :: "(nat, nat, nat, unit, unit) collaborators" where
  "example_collab =
     \<lparr>rev_onehot_c = rev_onehot,
      build_targets = (\<lambda>cr b m. Inr (replicate (batch_size b) (replicate (max_seq_length b - 1) [1, 1]))),
      critic_init_hidden = (\<lambda>cr n. ()),
      critic_forward = (\<lambda>cr b h t. Inr (replicate (batch_size b) [1 / 2, 1 / 2], ())),
      critic_fit = (\<lambda>cr opt q tg t m. Inr (cr + 1, opt + 1, 1 / 4, 1)),
      abs_td_sum = (\<lambda>q tg t m. Inr 1),
      masked_sum = (\<lambda>x m. Inr 1),
      critic_load_state = (\<lambda>tgt src. src),
      mac_init_hidden = (\<lambda>m n. m),
      mac_forward = (\<lambda>m b t. Inr ((), m)),
      mac_load_state = (\<lambda>tgt src. src),
      mac_save_models = (\<lambda>m dir fs. th_save (SavedMac m) (dir @ ''/agent.th'') fs),
      mac_load_models = (\<lambda>m dir fs.
         bind_err (th_load fs (dir @ ''/agent.th''))
           (\<lambda>obj. case obj of SavedMac m' \<Rightarrow> Inr m' | _ \<Rightarrow> Inl RuntimeError)),
      identifier_fit = (\<lambda>m opt outs b q msk. Inr (m + 1, opt + 1, 0, 0)),
      attacker_out_len = (\<lambda>out. 7),
      attacker_fit = (\<lambda>m opt outs acts n q msk amsk. Inr (m + 1, opt + 1, 0, 0))\<rparr>"

definition example_learner :: "(nat, nat, nat) learner" where
  "example_learner = init_learner 0 0 0 0 0 0 small_args"

text \<open>One episode of two steps, one retained; filled in \<open>example_batch\<close>, padding in \<open>padded_batch\<close>.\<close>

definition example_batch :: batch where
  "example_batch =
     \<lparr>batch_size = 1, max_seq_length = 2,
      filled = [[1, 1]], terminated = [[0, 0]],
      attacker_action = [[small_msg, small_msg]],
      identifier_action = [[[0], [0]]],
      attacker_reward = [[0, 0]], identifier_reward = [[0, 0]]\<rparr>"

definition padded_batch :: batch where
  "padded_batch = example_batch\<lparr>filled := [[0, 0]]\<rparr>"

text \<open>One episode of a single step: nothing is left after the last step is dropped.\<close>

definition single_step_batch :: batch where
  "single_step_batch =
     \<lparr>batch_size = 1, max_seq_length = 1,
      filled = [[1]], terminated = [[0]],
      attacker_action = [[small_msg]],
      identifier_action = [[[0]]],
      attacker_reward = [[0]], identifier_reward = [[0]]\<rparr>"

text \<open>The local variables of \<open>_train_critic\<close> when the backward loop starts on \<open>example_batch\<close>.\<close>

definition example_loop_state :: "(nat, nat, nat, unit) critic_loop_state" where
  "example_loop_state =
     \<lparr>lrn = example_learner, critic_hidden = (), q_vals = [[[0, 0]]], running = empty_log\<rparr>"

text \<open>The learner after one critic step on \<open>example_batch\<close>, the state \<open>train\<close> raises with.\<close>

definition stepped_learner :: "(nat, nat, nat) learner" where
  "stepped_learner =
     example_learner\<lparr>critic := 1, critic_optimiser := 1, critic_training_steps := 1\<rparr>"

text \<open>A learner whose networks and optimisers differ, saved to an empty directory.\<close>

definition saved_learner :: "(nat, nat, nat) learner" where
  "saved_learner =
     example_learner\<lparr>mac := 2, target_mac := 8, critic := 3, target_critic := 4,
       identifier_optimiser := 5, attacker_optimiser := 6, critic_optimiser := 7\<rparr>"

definition saved_files :: "(nat, nat, nat) files" where
  "saved_files = save_models example_collab saved_learner ''ckpt'' (\<lambda>file_path. None)"

text \<open>Inputs of the graph-attention agent.\<close>

definition dgn_scheme :: scheme where
  "dgn_scheme = \<lparr>obs_vshape = 5, actions_onehot_vshape = [4]\<rparr>"

definition dgn_plain_args :: dgn_args where
  "dgn_plain_args =
     \<lparr>obs_last_action = True, obs_agent_id = False, agent_type = ''dgn'',
      dgn_n_agents = 3, hidden_dim = 8, n_actions = 4\<rparr>"

text \<open>An attention block of width one whose four layers are the identity, and two agents.\<close>

definition unit_linear :: linear where
  "unit_linear = \<lparr>weight = [[1]], bias = [0]\<rparr>"

definition unit_att :: att_model where
  "unit_att = \<lparr>fcv = unit_linear, fck = unit_linear, fcq = unit_linear, fcout = unit_linear\<rparr>"

definition two_agents :: "real list list" where
  "two_agents = [[1], [3]]"

text \<open>Agent 0 masks every agent out; in \<open>self_mask\<close> every agent sees itself only.\<close>

definition blind_mask :: "real list list" where
  "blind_mask = [[0, 0], [0, 1]]"

definition self_mask :: "real list list" where
  "self_mask = [[1, 0], [0, 1]]"

section \<open>Properties of the certificate decoder\<close>

lemma list_rev_onehot_loop_map:
  "list_rev_onehot_loop x is ret = ret @ map (\<lambda>i. if x ! (2 * i) = 1 then 1 else 0) is"
  by (induction "is" arbitrary: ret) simp_all

lemma list_rev_onehot_map:
  "list_rev_onehot x = map (\<lambda>i. if x ! (2 * i) = 1 then 1 else 0) [0..<length x div 2]"
  by (simp add: list_rev_onehot_def list_rev_onehot_loop_map)

lemma list_rev_onehot_index_in_range:
  "idx \<in> set [0..<length x div 2] \<Longrightarrow> 2 * idx < length x"
  by auto

lemma length_list_rev_onehot: "length (list_rev_onehot x) = length x div 2"
  by (simp add: list_rev_onehot_map)

lemma nth_list_rev_onehot:
  "i < length x div 2 \<Longrightarrow> list_rev_onehot x ! i = (if x ! (2 * i) = 1 then 1 else 0)"
  by (simp add: list_rev_onehot_map)

text \<open>
  Claim C10. For every input sequence \<open>x\<close>, \<open>list_rev_onehot\<close> returns a list of length
  \<open>len(x) div 2\<close> whose element \<open>i\<close> is 1 if \<open>x[2 i]\<close> equals exactly 1 and 0 otherwise.
  The trailing element of an odd-length input is ignored (the result is that of the
  longest even-length prefix), and a first-of-pair value different from 1, however close,
  decodes to 0.
\<close>

theorem list_rev_onehot_spec:
  "length (list_rev_onehot x) = length x div 2
   \<and> (\<forall>i < length x div 2. list_rev_onehot x ! i = (if x ! (2 * i) = 1 then 1 else 0))
   \<and> list_rev_onehot (take (2 * (length x div 2)) x) = list_rev_onehot x
   \<and> (\<forall>i < length x div 2. x ! (2 * i) \<noteq> 1 \<longrightarrow> list_rev_onehot x ! i = 0)"
proof -
  have "2 * (length x div 2) \<le> length x" by simp
  then have len: "length (take (2 * (length x div 2)) x) div 2 = length x div 2"
    by (simp add: min_absorb2)
  have "list_rev_onehot (take (2 * (length x div 2)) x) = list_rev_onehot x"
    unfolding list_rev_onehot_map len by (rule map_cong) auto
  then show ?thesis
    by (simp add: length_list_rev_onehot nth_list_rev_onehot)
qed

theorem list_rev_onehot_spec_witness:
  "length (list_rev_onehot [1, 0, 999 / 1000, 1, 0, 1, 1]) = 3
   \<and> list_rev_onehot [1, 0, 999 / 1000, 1, 0, 1, 1] ! 0 = 1
   \<and> list_rev_onehot [1, 0, 999 / 1000, 1, 0, 1, 1] ! 1 = 0
   \<and> list_rev_onehot (take 6 [1, 0, 999 / 1000, 1, 0, 1, 1])
       = list_rev_onehot [1, 0, 999 / 1000, 1, 0, 1, 1]"
proof -
  let ?x = "[1, 0, 999 / 1000, 1, 0, 1, 1] :: real list"
  have l: "length ?x div 2 = 3" by simp
  note s = list_rev_onehot_spec [of ?x, unfolded l]
  have n: "length (list_rev_onehot ?x) = 3" using s by blast
  have e0: "list_rev_onehot ?x ! 0 = 1" using s by simp
  have e1: "list_rev_onehot ?x ! 1 = 0" using s by simp
  have t: "list_rev_onehot (take 6 ?x) = list_rev_onehot ?x" using s by simp
  from n e0 e1 t show ?thesis by blast
qed

section \<open>Properties of the per-message decoder\<close>

lemma consume_concat: "concat (consume_segments ws xs) @ drop (sum_list ws) xs = xs"
proof (induction ws arbitrary: xs)
  case Nil
  show ?case by simp
next
  case (Cons w ws)
  have "concat (consume_segments (w # ws) xs) @ drop (sum_list (w # ws)) xs
        = take w xs @ (concat (consume_segments ws (drop w xs)) @ drop (sum_list ws) (drop w xs))"
    by (simp add: add.commute)
  also have "\<dots> = take w xs @ drop w xs" by (simp only: Cons.IH)
  finally show ?case by simp
qed

lemma consume_lengths:
  "sum_list ws \<le> length xs \<Longrightarrow> map length (consume_segments ws xs) = ws"
  by (induction ws arbitrary: xs) auto

lemma parse_eq:
  "parse_input_message dec a m =
     map (\<lambda>seg. Category (dec seg)) (consume_segments (category_widths a) m)
     @ [Certificate (list_rev_onehot (drop (sum_list (category_widths a)) m))]"
  by (simp add: parse_input_message_def category_widths_def py_slice_def Let_def drop_take
      add.commute add.left_commute add.assoc)

lemma argmax_scan_inv:
  "length pre = i \<Longrightarrow> bi < i \<Longrightarrow> pre ! bi = b \<Longrightarrow> (\<forall>j<i. pre ! j \<le> b) \<Longrightarrow>
   argmax_scan vs i bi b < length (pre @ vs)
   \<and> (\<forall>j<length (pre @ vs). (pre @ vs) ! j \<le> (pre @ vs) ! argmax_scan vs i bi b)"
proof (induction vs arbitrary: pre i bi b)
  case Nil
  then show ?case by simp
next
  case (Cons v vs)
  show ?case
  proof (cases "b < v")
    case True
    have "argmax_scan vs (Suc i) i v < length ((pre @ [v]) @ vs)
      \<and> (\<forall>j<length ((pre @ [v]) @ vs). ((pre @ [v]) @ vs) ! j \<le> ((pre @ [v]) @ vs) ! argmax_scan vs (Suc i) i v)"
    proof (rule Cons.IH)
      show "length (pre @ [v]) = Suc i" using Cons.prems by simp
      show "i < Suc i" by simp
      show "(pre @ [v]) ! i = v" using Cons.prems by (simp add: nth_append)
      show "\<forall>j<Suc i. (pre @ [v]) ! j \<le> v"
        using Cons.prems True by (auto simp: nth_append less_Suc_eq intro: less_imp_le order_trans)
    qed
    with True show ?thesis by simp
  next
    case False
    have "argmax_scan vs (Suc i) bi b < length ((pre @ [v]) @ vs)
      \<and> (\<forall>j<length ((pre @ [v]) @ vs). ((pre @ [v]) @ vs) ! j \<le> ((pre @ [v]) @ vs) ! argmax_scan vs (Suc i) bi b)"
    proof (rule Cons.IH)
      show "length (pre @ [v]) = Suc i" using Cons.prems by simp
      show "bi < Suc i" using Cons.prems by simp
      show "(pre @ [v]) ! bi = b" using Cons.prems by (simp add: nth_append)
      show "\<forall>j<Suc i. (pre @ [v]) ! j \<le> b"
        using Cons.prems False by (auto simp: nth_append less_Suc_eq)
    qed
    with False show ?thesis by simp
  qed
qed

lemma rev_onehot_argmax:
  "seg \<noteq> [] \<Longrightarrow> rev_onehot seg < length seg \<and> (\<forall>j<length seg. seg ! j \<le> seg ! rev_onehot seg)"
proof (cases seg)
  case Nil
  assume "seg \<noteq> []"
  with Nil show ?thesis by simp
next
  case (Cons v vs)
  have "argmax_scan vs 1 0 v < length ([v] @ vs)
        \<and> (\<forall>j<length ([v] @ vs). ([v] @ vs) ! j \<le> ([v] @ vs) ! argmax_scan vs 1 0 v)"
    by (rule argmax_scan_inv) simp_all
  with Cons show ?thesis by (simp add: rev_onehot_def)
qed

text \<open>
  Claim C3. For every configuration and every message vector, \<open>_parse_input_message\<close>
  consumes the vector from the left in segments, in the order message type (width 10),
  sender identity (\<open>num_malicious\<close>), view number (\<open>max_view_num\<close>), sequence number
  (\<open>max_seq_num\<close>), client value (\<open>total_client_vals\<close>), receiver identity (\<open>n_peers\<close>),
  and hands the rest to the certificate decoder; each of the six segments is decoded by
  the category decoder, whatever that decoder is. The segments and the rest partition the
  vector: concatenated they give it back, so no element is in two segments and none is
  left over. When the vector has the documented width, every segment has exactly its
  width, the rest has \<open>2 * n_peers\<close> entries, and the certificate has one flag per peer,
  set exactly when the first entry of the peer's pair is 1. The category decoder of the
  specification returns an index of a largest entry of a non-empty segment.
\<close>

theorem parse_input_message_segments:
  "parse_input_message dec a m =
     map (\<lambda>seg. Category (dec seg)) (consume_segments (category_widths a) m)
     @ [Certificate (list_rev_onehot (drop (sum_list (category_widths a)) m))]
   \<and> concat (consume_segments (category_widths a) m) @ drop (sum_list (category_widths a)) m = m
   \<and> (length m = msg_width a \<longrightarrow>
        map length (consume_segments (category_widths a) m) = category_widths a
        \<and> length (drop (sum_list (category_widths a)) m) = 2 * n_peers a
        \<and> length (list_rev_onehot (drop (sum_list (category_widths a)) m)) = n_peers a
        \<and> (\<forall>p < n_peers a.
              list_rev_onehot (drop (sum_list (category_widths a)) m) ! p
              = (if m ! (sum_list (category_widths a) + 2 * p) = 1 then 1 else 0)))
   \<and> (\<forall>seg. seg \<noteq> [] \<longrightarrow>
          rev_onehot seg < length seg \<and> (\<forall>j < length seg. seg ! j \<le> seg ! rev_onehot seg))"
proof (intro conjI impI allI)
  show "parse_input_message dec a m =
     map (\<lambda>seg. Category (dec seg)) (consume_segments (category_widths a) m)
     @ [Certificate (list_rev_onehot (drop (sum_list (category_widths a)) m))]"
    by (rule parse_eq)
  show "concat (consume_segments (category_widths a) m) @ drop (sum_list (category_widths a)) m = m"
    by (rule consume_concat)
next
  assume w: "length m = msg_width a"
  then have le: "sum_list (category_widths a) \<le> length m"
    by (simp add: msg_width_def)
  show "map length (consume_segments (category_widths a) m) = category_widths a"
    using le by (rule consume_lengths)
  show rest: "length (drop (sum_list (category_widths a)) m) = 2 * n_peers a"
    using w by (simp add: msg_width_def)
  show "length (list_rev_onehot (drop (sum_list (category_widths a)) m)) = n_peers a"
    using rest by (simp add: length_list_rev_onehot)
  fix p assume p: "p < n_peers a"
  then have "p < length (drop (sum_list (category_widths a)) m) div 2"
    using rest by simp
  then have "list_rev_onehot (drop (sum_list (category_widths a)) m) ! p
             = (if drop (sum_list (category_widths a)) m ! (2 * p) = 1 then 1 else 0)"
    by (rule nth_list_rev_onehot)
  moreover have "sum_list (category_widths a) + 2 * p \<le> length m"
    using p w by (simp add: msg_width_def)
  ultimately show "list_rev_onehot (drop (sum_list (category_widths a)) m) ! p
             = (if m ! (sum_list (category_widths a) + 2 * p) = 1 then 1 else 0)"
    using le by simp
next
  fix seg :: "real list" assume "seg \<noteq> []"
  then have r: "rev_onehot seg < length seg \<and> (\<forall>j<length seg. seg ! j \<le> seg ! rev_onehot seg)"
    by (rule rev_onehot_argmax)
  from r show "rev_onehot seg < length seg" by blast
  fix j assume "j < length seg"
  with r show "seg ! j \<le> seg ! rev_onehot seg" by blast
qed

theorem parse_input_message_segments_witness:
  "length example_msg = msg_width example_args
   \<and> parse_input_message rev_onehot example_args example_msg =
       [Category 3, Category 1, Category 0, Category 0, Category 0, Category 0,
        Certificate (list_rev_onehot [1, 0, 0, 1])]
   \<and> length (list_rev_onehot (drop 17 example_msg)) = 2
   \<and> list_rev_onehot (drop 17 example_msg) ! 0 = 1
   \<and> list_rev_onehot (drop 17 example_msg) ! 1 = 0
   \<and> rev_onehot [0, 1] < length [0 :: real, 1]"
proof -
  have w: "length example_msg = msg_width example_args"
    by (simp add: example_msg_def example_args_def msg_width_def category_widths_def)
  have s17: "sum_list (category_widths example_args) = 17"
    by (simp add: example_args_def category_widths_def)
  have np: "n_peers example_args = 2" by (simp add: example_args_def)
  note t = parse_input_message_segments [of rev_onehot example_args example_msg]
  from t have p: "parse_input_message rev_onehot example_args example_msg =
     map (\<lambda>seg. Category (rev_onehot seg)) (consume_segments (category_widths example_args) example_msg)
     @ [Certificate (list_rev_onehot (drop (sum_list (category_widths example_args)) example_msg))]"
    by blast
  have p': "parse_input_message rev_onehot example_args example_msg =
       [Category 3, Category 1, Category 0, Category 0, Category 0, Category 0,
        Certificate (list_rev_onehot [1, 0, 0, 1])]"
    unfolding p by (simp add: example_args_def example_msg_def category_widths_def rev_onehot_def)
  from t w have c: "length (list_rev_onehot (drop 17 example_msg)) = 2
        \<and> (\<forall>p < 2. list_rev_onehot (drop 17 example_msg) ! p
              = (if example_msg ! (17 + 2 * p) = 1 then 1 else 0))"
    unfolding s17 np by blast
  from c have c0: "list_rev_onehot (drop 17 example_msg) ! 0 = 1"
    by (simp add: example_msg_def)
  from c have c1: "list_rev_onehot (drop 17 example_msg) ! 1 = 0"
    by (simp add: example_msg_def)
  from t have "[0 :: real, 1] \<noteq> [] \<longrightarrow> rev_onehot [0, 1] < length [0 :: real, 1]"
    by blast
  then have r: "rev_onehot [0, 1] < length [0 :: real, 1]" by simp
  from w p' c c0 c1 r show ?thesis by blast
qed

section \<open>Properties of the validity mask\<close>

lemma mask_row_length:
  "length filled_b = length terminated_b \<Longrightarrow>
   length (mask_row filled_b terminated_b) = length filled_b - 1"
  by (cases "length terminated_b - 1") (auto simp: mask_row_def Let_def)

lemma mask_row_0:
  "1 < length filled_b \<Longrightarrow> mask_row filled_b terminated_b ! 0 = filled_b ! 0"
  by (cases filled_b) (auto simp: mask_row_def Let_def nth_append nth_butlast take_Suc split: list.splits)

lemma mask_row_t:
  assumes "length filled_b = length terminated_b" "0 < t" "t < length filled_b - 1"
  shows "mask_row filled_b terminated_b ! t = filled_b ! t * (1 - terminated_b ! (t - 1))"
proof -
  obtain s where t: "t = Suc s" using assms(2) by (cases t) auto
  have l1: "length (take 1 (butlast filled_b)) = 1" using assms by simp
  have "mask_row filled_b terminated_b ! t =
        map2 (\<lambda>m t. m * (1 - t)) (drop 1 (butlast filled_b)) (butlast (butlast terminated_b)) ! s"
    unfolding mask_row_def Let_def using l1 t by (simp add: nth_append)
  also have "\<dots> = filled_b ! t * (1 - terminated_b ! s)"
    using assms t by (simp add: nth_butlast)
  finally show ?thesis using t by simp
qed

text \<open>
  Claim C4, as the code has it. Within each episode the mask has one entry per retained
  step; its first entry is the filled flag of step 0, and the entry of every later step
  \<open>t\<close> is the filled flag of step \<open>t\<close> times one minus the terminated flag of step
  \<open>t - 1\<close>. So the mask is 0 at every step that directly follows a step whose terminated
  flag is 1, and it is the filled flag at every step whose predecessor has the terminated
  flag 0: in particular at a step with no terminated flag before it, such as the first
  step whose terminated flag is set. A later step has mask 0 exactly when its own filled
  flag is 0 or the terminated flag of the step before it is 1.
\<close>

theorem mask_row_spec:
  assumes "length filled_b = length terminated_b"
  shows "length (mask_row filled_b terminated_b) = length filled_b - 1
    \<and> (1 < length filled_b \<longrightarrow> mask_row filled_b terminated_b ! 0 = filled_b ! 0)
    \<and> (\<forall>t. 0 < t \<and> t < length filled_b - 1 \<longrightarrow>
           mask_row filled_b terminated_b ! t = filled_b ! t * (1 - terminated_b ! (t - 1)))
    \<and> (\<forall>t. 0 < t \<and> t < length filled_b - 1 \<and> terminated_b ! (t - 1) = 1 \<longrightarrow>
           mask_row filled_b terminated_b ! t = 0)
    \<and> (\<forall>t. 0 < t \<and> t < length filled_b - 1 \<and> terminated_b ! (t - 1) = 0 \<longrightarrow>
           mask_row filled_b terminated_b ! t = filled_b ! t)
    \<and> (\<forall>t. 0 < t \<and> t < length filled_b - 1 \<and> (\<forall>s < t. terminated_b ! s = 0) \<longrightarrow>
           mask_row filled_b terminated_b ! t = filled_b ! t)
    \<and> (\<forall>t. 0 < t \<and> t < length filled_b - 1 \<longrightarrow>
           (mask_row filled_b terminated_b ! t = 0
            \<longleftrightarrow> filled_b ! t = 0 \<or> terminated_b ! (t - 1) = 1))"
proof -
  have a: "length (mask_row filled_b terminated_b) = length filled_b - 1"
    using assms by (rule mask_row_length)
  have b: "1 < length filled_b \<longrightarrow> mask_row filled_b terminated_b ! 0 = filled_b ! 0"
    by (simp add: mask_row_0)
  have c: "\<forall>t. 0 < t \<and> t < length filled_b - 1 \<longrightarrow>
           mask_row filled_b terminated_b ! t = filled_b ! t * (1 - terminated_b ! (t - 1))"
    using assms by (blast intro: mask_row_t)
  have d: "\<forall>t. 0 < t \<and> t < length filled_b - 1 \<and> terminated_b ! (t - 1) = 1 \<longrightarrow>
           mask_row filled_b terminated_b ! t = 0"
  proof (intro allI impI)
    fix t assume h: "0 < t \<and> t < length filled_b - 1 \<and> terminated_b ! (t - 1) = 1"
    with c have "mask_row filled_b terminated_b ! t = filled_b ! t * (1 - terminated_b ! (t - 1))"
      by blast
    with h show "mask_row filled_b terminated_b ! t = 0" by simp
  qed
  have e: "\<forall>t. 0 < t \<and> t < length filled_b - 1 \<and> terminated_b ! (t - 1) = 0 \<longrightarrow>
           mask_row filled_b terminated_b ! t = filled_b ! t"
  proof (intro allI impI)
    fix t assume h: "0 < t \<and> t < length filled_b - 1 \<and> terminated_b ! (t - 1) = 0"
    with c have "mask_row filled_b terminated_b ! t = filled_b ! t * (1 - terminated_b ! (t - 1))"
      by blast
    with h show "mask_row filled_b terminated_b ! t = filled_b ! t" by simp
  qed
  have f: "\<forall>t. 0 < t \<and> t < length filled_b - 1 \<and> (\<forall>s < t. terminated_b ! s = 0) \<longrightarrow>
           mask_row filled_b terminated_b ! t = filled_b ! t"
  proof (intro allI impI)
    fix t assume h: "0 < t \<and> t < length filled_b - 1 \<and> (\<forall>s < t. terminated_b ! s = 0)"
    then have "t - 1 < t" by simp
    with h have "terminated_b ! (t - 1) = 0" by blast
    with h e show "mask_row filled_b terminated_b ! t = filled_b ! t" by blast
  qed
  have g: "\<forall>t. 0 < t \<and> t < length filled_b - 1 \<longrightarrow>
           (mask_row filled_b terminated_b ! t = 0
            \<longleftrightarrow> filled_b ! t = 0 \<or> terminated_b ! (t - 1) = 1)"
  proof (intro allI impI)
    fix t assume h: "0 < t \<and> t < length filled_b - 1"
    with c have "mask_row filled_b terminated_b ! t = filled_b ! t * (1 - terminated_b ! (t - 1))"
      by blast
    then show "mask_row filled_b terminated_b ! t = 0
            \<longleftrightarrow> filled_b ! t = 0 \<or> terminated_b ! (t - 1) = 1"
      by auto
  qed
  from a b c d e f g show ?thesis by blast
qed

theorem mask_row_spec_witness:
  "length [1, 1, 1, 0, 0 :: int] = length [0, 1, 0, 0, 0 :: int]
   \<and> length (mask_row [1, 1, 1, 0, 0] [0, 1, 0, 0, 0]) = 4
   \<and> mask_row [1, 1, 1, 0, 0] [0, 1, 0, 0, 0] ! 0 = 1
   \<and> mask_row [1, 1, 1, 0, 0] [0, 1, 0, 0, 0] ! 1 = 1
   \<and> mask_row [1, 1, 1, 0, 0] [0, 1, 0, 0, 0] ! 2 = 0
   \<and> [0, 1, 0, 0, 0 :: int] ! (1 - 1) = 0
   \<and> mask_row [1, 1, 1, 0, 0] [0, 1, 0, 0, 0] ! 1 = [1, 1, 1, 0, 0] ! 1"
proof -
  have l: "length [1, 1, 1, 0, 0 :: int] = length [0, 1, 0, 0, 0 :: int]" by simp
  note s = mask_row_spec [OF l]
  have n: "length (mask_row [1, 1, 1, 0, 0] [0, 1, 0, 0, 0]) = 4" using s by simp
  have e0: "mask_row [1, 1, 1, 0, 0] [0, 1, 0, 0, 0] ! 0 = 1" using s by simp
  from s have "0 < (1::nat) \<and> (1::nat) < length [1, 1, 1, 0, 0 :: int] - 1 \<longrightarrow>
     mask_row [1, 1, 1, 0, 0] [0, 1, 0, 0, 0] ! 1 = [1, 1, 1, 0, 0] ! 1 * (1 - [0, 1, 0, 0, 0] ! (1 - 1))"
    by blast
  then have e1: "mask_row [1, 1, 1, 0, 0] [0, 1, 0, 0, 0] ! 1 = 1" by simp
  from s have "0 < (2::nat) \<and> (2::nat) < length [1, 1, 1, 0, 0 :: int] - 1 \<and> [0, 1, 0, 0, 0 :: int] ! (2 - 1) = 1 \<longrightarrow>
     mask_row [1, 1, 1, 0, 0] [0, 1, 0, 0, 0] ! 2 = 0"
    by blast
  then have e2: "mask_row [1, 1, 1, 0, 0] [0, 1, 0, 0, 0] ! 2 = 0" by simp
  have p: "[0, 1, 0, 0, 0 :: int] ! (1 - 1) = 0" by simp
  from s have "0 < (1::nat) \<and> (1::nat) < length [1, 1, 1, 0, 0 :: int] - 1
      \<and> [0, 1, 0, 0, 0 :: int] ! (1 - 1) = 0 \<longrightarrow>
     mask_row [1, 1, 1, 0, 0] [0, 1, 0, 0, 0] ! 1 = [1, 1, 1, 0, 0] ! 1"
    by blast
  then have e3: "mask_row [1, 1, 1, 0, 0] [0, 1, 0, 0, 0] ! 1 = [1, 1, 1, 0, 0] ! 1" by simp
  from l n e0 e1 e2 p e3 show ?thesis by blast
qed

text \<open>
  The claim as written fails on the code. In the first episode below, step 1 is the first
  step whose terminated flag is set, it is not the first column, and its mask is 1. In the
  second, step 3 comes after the terminated step and its mask is 1, because only the flag
  of the step directly before is read.
\<close>

theorem mask_row_counterexample:
  "butlast [0, 1, 0, 0, 0 :: int] ! 1 = 1
   \<and> mask_row [1, 1, 0, 0, 0] [0, 1, 0, 0, 0] = [1, 1, 0, 0]
   \<and> mask_row [1, 1, 0, 0, 0] [0, 1, 0, 0, 0] ! 1 \<noteq> 0
   \<and> mask_row [1, 1, 1, 1, 1] [0, 1, 0, 0, 0] = [1, 1, 0, 1]
   \<and> mask_row [1, 1, 1, 1, 1] [0, 1, 0, 0, 0] ! 3 \<noteq> 0"
  by (simp add: mask_row_def)

section \<open>Properties of critic training and of \<open>train\<close>\<close>

lemma targets_t_unbound:
  "lookup_name (train_critic_locals @ module_globals) ''targets_t'' v = Inl NameError"
  by (simp add: lookup_name_def train_critic_locals_def module_globals_def)

lemma clnoe_missing: "tensor_getattr ''clnoe'' v = Inl AttributeError"
  by (simp add: tensor_getattr_def tensor_attributes_def)

lemma critic_step_skip:
  "tensor_sum (mask_at critic_mask t) = 0 \<Longrightarrow> critic_step c b targets critic_mask t s = Inr s"
  by (simp add: critic_step_def)

lemma critic_step_Inr:
  assumes "critic_step c b targets critic_mask t s = Inr s'"
  shows "s' = s \<and> tensor_sum (mask_at critic_mask t) = 0"
proof (cases "tensor_sum (mask_at critic_mask t) = 0")
  case True
  with assms show ?thesis by (simp add: critic_step_def)
next
  case False
  with assms have False
    by (auto simp: critic_step_def Let_def attempt_def targets_t_unbound
        split: sum.splits prod.splits)
  then show ?thesis ..
qed

lemma untouched_refl: "untouched st st"
  by (simp add: untouched_def)

lemma untouched_trans: "untouched st st' \<Longrightarrow> untouched st' st'' \<Longrightarrow> untouched st st''"
  by (simp add: untouched_def)

lemma critic_step_untouched:
  assumes "critic_step c b targets critic_mask t s = Inl (e, s')"
  shows "untouched (lrn s) (lrn s')"
  using assms
  by (auto simp: critic_step_def Let_def attempt_def untouched_def targets_t_unbound
      split: sum.splits prod.splits if_splits)

lemma py_truediv_nonzero: "y \<noteq> 0 \<Longrightarrow> py_truediv x y = Inr (x / y)"
  by (simp add: py_truediv_def)

lemma not_isl_Inr: "\<not> isl r \<Longrightarrow> \<exists>x. r = Inr x"
  by (cases r) auto

lemma critic_step_NameError:
  assumes rn: "returns_normally c" and nz: "tensor_sum (mask_at critic_mask t) \<noteq> 0"
  shows "\<exists>s'. critic_step c b targets critic_mask t s = Inl (NameError, s')"
proof -
  let ?mt = "mask_at critic_mask t"
  have me: "real_of_int (tensor_sum ?mt) \<noteq> 0" using nz by simp
  obtain q_t h where f: "critic_forward c (critic (lrn s)) b (critic_hidden s) t = Inr (q_t, h)"
    using rn not_isl_Inr unfolding returns_normally_def by (metis surj_pair)
  define s1 where "s1 = s\<lparr>critic_hidden := h, q_vals := map2 (\<lambda>ep q. ep[t := q]) (q_vals s) q_t\<rparr>"
  obtain cr opt loss gn where g:
    "critic_fit c (critic (lrn s1)) (critic_optimiser (lrn s1)) (q_vals s1) targets t ?mt = Inr (cr, opt, loss, gn)"
    using rn not_isl_Inr unfolding returns_normally_def by (metis surj_pair)
  define s2 where "s2 = s1\<lparr>lrn := (lrn s1)\<lparr>critic := cr, critic_optimiser := opt,
                      critic_training_steps := critic_training_steps (lrn s1) + 1\<rparr>\<rparr>"
  obtain x1 where a: "abs_td_sum c (q_vals s1) targets t ?mt = Inr x1"
    using rn not_isl_Inr unfolding returns_normally_def by metis
  obtain x2 where m: "masked_sum c q_t ?mt = Inr x2"
    using rn not_isl_Inr unfolding returns_normally_def by metis
  show ?thesis
    using nz f g a m me
    by (simp add: critic_step_def Let_def attempt_def bind_err_def s1_def py_truediv_nonzero
        targets_t_unbound)
qed

lemma critic_loop_Inr:
  "critic_loop c b targets critic_mask ts s = Inr s' \<Longrightarrow>
   s' = s \<and> list_all (\<lambda>t. tensor_sum (mask_at critic_mask t) = 0) ts"
proof (induction ts arbitrary: s)
  case Nil
  then show ?case by simp
next
  case (Cons t ts)
  from Cons.prems obtain s1 where 1: "critic_step c b targets critic_mask t s = Inr s1"
    and 2: "critic_loop c b targets critic_mask ts s1 = Inr s'"
    by (auto split: sum.splits)
  from 1 have "s1 = s \<and> tensor_sum (mask_at critic_mask t) = 0" by (rule critic_step_Inr)
  moreover from 2 have "s' = s1 \<and> list_all (\<lambda>t. tensor_sum (mask_at critic_mask t) = 0) ts"
    by (rule Cons.IH)
  ultimately show ?case by simp
qed

lemma critic_loop_skip:
  "list_all (\<lambda>t. tensor_sum (mask_at critic_mask t) = 0) ts \<Longrightarrow>
   critic_loop c b targets critic_mask ts s = Inr s"
  by (induction ts) (simp_all add: critic_step_skip)

lemma critic_loop_untouched:
  "critic_loop c b targets critic_mask ts s = Inl (e, s') \<Longrightarrow> untouched (lrn s) (lrn s')"
proof (induction ts arbitrary: s)
  case Nil
  then show ?case by simp
next
  case (Cons t ts)
  show ?case
  proof (cases "critic_step c b targets critic_mask t s")
    case (Inl es)
    with Cons.prems have "critic_step c b targets critic_mask t s = Inl (e, s')" by simp
    then show ?thesis by (rule critic_step_untouched)
  next
    case (Inr s1)
    then have "s1 = s" using critic_step_Inr by blast
    with Inr Cons.prems have "critic_loop c b targets critic_mask ts s = Inl (e, s')" by simp
    then show ?thesis by (rule Cons.IH)
  qed
qed

lemma critic_loop_NameError:
  assumes rn: "returns_normally c"
  shows "\<not> list_all (\<lambda>t. tensor_sum (mask_at critic_mask t) = 0) ts \<Longrightarrow>
         \<exists>s'. critic_loop c b targets critic_mask ts s = Inl (NameError, s')"
proof (induction ts)
  case Nil
  then show ?case by simp
next
  case (Cons t ts)
  show ?case
  proof (cases "tensor_sum (mask_at critic_mask t) = 0")
    case True
    with Cons show ?thesis by (simp add: critic_step_skip)
  next
    case False
    with rn obtain s' where "critic_step c b targets critic_mask t s = Inl (NameError, s')"
      using critic_step_NameError by blast
    then show ?thesis by simp
  qed
qed

lemma all_steps_zero_iff:
  "list_all (\<lambda>t. tensor_sum (mask_at m t) = 0) (rev [0..<n]) \<longleftrightarrow> (\<forall>t<n. tensor_sum (mask_at m t) = 0)"
  by (auto simp: list_all_iff)

lemma train_critic_Inr:
  assumes "train_critic c b critic_mask st = Inr cl"
  shows "lrn cl = st \<and> (\<forall>t < max_seq_length b - 1. tensor_sum (mask_at critic_mask t) = 0)"
proof -
  from assms obtain targets s0 where
    l: "critic_loop c b targets critic_mask (rev [0..<max_seq_length b - 1]) s0 = Inr cl"
    and s0: "lrn s0 = st"
    by (auto simp: train_critic_def attempt_def Let_def split: sum.splits prod.splits)
  from l have "cl = s0 \<and> list_all (\<lambda>t. tensor_sum (mask_at critic_mask t) = 0) (rev [0..<max_seq_length b - 1])"
    by (rule critic_loop_Inr)
  with s0 show ?thesis
    using all_steps_zero_iff [of critic_mask "max_seq_length b - 1"] by blast
qed

lemma train_critic_untouched:
  assumes "train_critic c b critic_mask st = Inl (e, st')"
  shows "untouched st st'"
proof (cases "build_targets c (target_critic st) b critic_mask")
  case (Inl e')
  with assms have "st' = st" by (simp add: train_critic_def attempt_def)
  then show ?thesis by (simp add: untouched_refl)
next
  case (Inr targets)
  with assms obtain s0 s' where
    l: "critic_loop c b targets critic_mask (rev [0..<max_seq_length b - 1]) s0 = Inl (e, s')"
    and s0: "lrn s0 = st" and s': "lrn s' = st'"
    by (auto simp: train_critic_def attempt_def Let_def split: sum.splits prod.splits)
  from l have "untouched (lrn s0) (lrn s')" by (rule critic_loop_untouched)
  with s0 s' show ?thesis by simp
qed

lemma train_critic_NameError:
  assumes rn: "returns_normally c"
    and nz: "\<exists>t < max_seq_length b - 1. tensor_sum (mask_at critic_mask t) \<noteq> 0"
  shows "\<exists>st'. train_critic c b critic_mask st = Inl (NameError, st')"
proof -
  obtain targets where t: "build_targets c (target_critic st) b critic_mask = Inr targets"
    using rn not_isl_Inr unfolding returns_normally_def by metis
  from nz have "\<not> list_all (\<lambda>t. tensor_sum (mask_at critic_mask t) = 0) (rev [0..<max_seq_length b - 1])"
    using all_steps_zero_iff [of critic_mask "max_seq_length b - 1"] by blast
  with rn have "\<exists>s'. critic_loop c b targets critic_mask (rev [0..<max_seq_length b - 1])
      \<lparr>lrn = st, critic_hidden = critic_init_hidden c (critic st) (batch_size b),
       q_vals = replicate (batch_size b) (replicate (max_seq_length b - 1) [0, 0]),
       running = empty_log\<rparr> = Inl (NameError, s')"
    by (rule critic_loop_NameError)
  with t show ?thesis
    by (auto simp: train_critic_def attempt_def Let_def)
qed

lemma train_critic_skip_all:
  assumes rn: "returns_normally c"
    and z: "\<forall>t < max_seq_length b - 1. tensor_sum (mask_at critic_mask t) = 0"
  shows "\<exists>cl. train_critic c b critic_mask st = Inr cl"
proof -
  obtain targets where t: "build_targets c (target_critic st) b critic_mask = Inr targets"
    using rn not_isl_Inr unfolding returns_normally_def by metis
  from z have "list_all (\<lambda>t. tensor_sum (mask_at critic_mask t) = 0) (rev [0..<max_seq_length b - 1])"
    using all_steps_zero_iff [of critic_mask "max_seq_length b - 1"] by blast
  then show ?thesis using t
    by (simp add: train_critic_def attempt_def Let_def critic_loop_skip)
qed

lemma mac_rollout_Inl:
  "mac_rollout c b ts outs st = Inl (e, st') \<Longrightarrow> untouched st st'"
proof (induction ts arbitrary: outs st)
  case Nil
  then show ?case by simp
next
  case (Cons t ts)
  show ?case
  proof (cases "mac_forward c (mac st) b t")
    case (Inl e')
    with Cons.prems have "st' = st" by (simp add: attempt_def)
    then show ?thesis by (simp add: untouched_refl)
  next
    case (Inr r)
    obtain out m where r: "r = (out, m)" by (cases r)
    with Inr Cons.prems have "mac_rollout c b ts (outs @ [out]) (st\<lparr>mac := m\<rparr>) = Inl (e, st')"
      by (simp add: attempt_def)
    then have "untouched (st\<lparr>mac := m\<rparr>) st'" by (rule Cons.IH)
    then show ?thesis by (simp add: untouched_def)
  qed
qed

lemma mac_rollout_Inr:
  "mac_rollout c b ts outs st = Inr (outs', st') \<Longrightarrow>
   untouched st st' \<and> length outs' = length outs + length ts"
proof (induction ts arbitrary: outs st)
  case Nil
  then show ?case by (simp add: untouched_refl)
next
  case (Cons t ts)
  from Cons.prems obtain out m where
    "mac_rollout c b ts (outs @ [out]) (st\<lparr>mac := m\<rparr>) = Inr (outs', st')"
    by (auto simp: attempt_def split: sum.splits prod.splits)
  then have "untouched (st\<lparr>mac := m\<rparr>) st' \<and> length outs' = length (outs @ [out]) + length ts"
    by (rule Cons.IH)
  then show ?case by (simp add: untouched_def)
qed

lemma mac_rollout_returns:
  assumes rn: "returns_normally c"
  shows "\<exists>outs' st'. mac_rollout c b ts outs st = Inr (outs', st')"
proof (induction ts arbitrary: outs st)
  case Nil
  then show ?case by simp
next
  case (Cons t ts)
  obtain out m where "mac_forward c (mac st) b t = Inr (out, m)"
    using rn not_isl_Inr unfolding returns_normally_def by (metis surj_pair)
  then show ?case using Cons.IH by (simp add: attempt_def)
qed

lemma parse_Inr_nonempty:
  assumes "parse_attacker_actions f a bs t_len acts = Inr p"
  shows "0 < bs \<and> 0 < t_len \<and> 0 < num_malicious a * max_message_num_per_round a"
proof -
  have "\<not> isl (view_msgs bs t_len (num_malicious a * max_message_num_per_round a) acts)"
    using assms by (auto simp: parse_attacker_actions_def Let_def bind_err_def split: sum.splits)
  then have "bs * t_len * (num_malicious a * max_message_num_per_round a) \<noteq> 0"
    by (auto simp: view_msgs_def Let_def split: if_splits)
  then show ?thesis by simp
qed

lemma train_unfold:
  "train c a b t_env episode_num st =
     (case parse_attacker_actions (rev_onehot_c c) a (batch_size b) (max_seq_length b - 1)
             (map butlast (attacker_action b)) of
        Inl e \<Rightarrow> Inl (e, st)
      | Inr p \<Rightarrow>
        (case train_critic c b (critic_mask_of a b) st of
           Inl es \<Rightarrow> Inl es
         | Inr cl \<Rightarrow>
           (case mac_rollout c b [0..<max_seq_length b] []
                   ((lrn cl)\<lparr>mac := mac_init_hidden c (mac (lrn cl)) (batch_size b)\<rparr>) of
              Inl es \<Rightarrow> Inl es
            | Inr (outs, st2) \<Rightarrow>
              (case identifier_fit c (mac st2) (identifier_optimiser st2) outs b (q_vals cl)
                      (map2 mask_row (filled b) (terminated b)) of
                 Inl e \<Rightarrow> Inl (e, st2)
               | Inr (m', o', il, ign) \<Rightarrow>
                 (case py_index outs 0 of
                    Inl e \<Rightarrow> Inl (e, st2\<lparr>mac := m', identifier_optimiser := o'\<rparr>)
                  | Inr out0 \<Rightarrow> Inl (AttributeError, st2\<lparr>mac := m', identifier_optimiser := o'\<rparr>))))))"
  by (simp add: train_def Let_def attempt_def clnoe_missing critic_mask_of_def
      split: sum.splits prod.splits)

lemma train_raises:
  "\<exists>e st'. train c a b t_env episode_num st = Inl (e, st') \<and> untouched st st'"
proof (cases "parse_attacker_actions (rev_onehot_c c) a (batch_size b) (max_seq_length b - 1)
             (map butlast (attacker_action b))")
  case (Inl e)
  then show ?thesis by (simp add: train_unfold untouched_refl)
next
  case p: (Inr p)
  show ?thesis
  proof (cases "train_critic c b (critic_mask_of a b) st")
    case (Inl es)
    obtain e st' where es: "es = (e, st')" by (cases es)
    with Inl have "untouched st st'" using train_critic_untouched by blast
    with p Inl es show ?thesis by (simp add: train_unfold)
  next
    case cl: (Inr cl)
    then have l: "lrn cl = st" using train_critic_Inr by blast
    let ?st1 = "st\<lparr>mac := mac_init_hidden c (mac st) (batch_size b)\<rparr>"
    have u1: "untouched st ?st1" by (simp add: untouched_def)
    show ?thesis
    proof (cases "mac_rollout c b [0..<max_seq_length b] [] ?st1")
      case (Inl es)
      obtain e st' where es: "es = (e, st')" by (cases es)
      with Inl have "untouched ?st1 st'" using mac_rollout_Inl by blast
      with u1 have "untouched st st'" by (rule untouched_trans)
      with p cl l Inl es show ?thesis by (simp add: train_unfold)
    next
      case r: (Inr r)
      obtain outs st2 where rr: "r = (outs, st2)" by (cases r)
      with r have "untouched ?st1 st2" using mac_rollout_Inr by blast
      with u1 have u2: "untouched st st2" by (rule untouched_trans)
      then have u3: "\<And>m' o'. untouched st (st2\<lparr>mac := m', identifier_optimiser := o'\<rparr>)"
        by (simp add: untouched_def)
      show ?thesis
        using p cl l r rr u2 u3
        by (auto simp: train_unfold split: sum.splits prod.splits)
    qed
  qed
qed

lemma train_NameError:
  assumes p: "parse_attacker_actions (rev_onehot_c c) a (batch_size b) (max_seq_length b - 1)
             (map butlast (attacker_action b)) = Inr p"
    and rn: "returns_normally c"
    and nz: "\<exists>t < max_seq_length b - 1. step_mask_sum a b t \<noteq> 0"
  shows "\<exists>st'. train c a b t_env episode_num st = Inl (NameError, st')"
proof -
  from nz have "\<exists>t < max_seq_length b - 1. tensor_sum (mask_at (critic_mask_of a b) t) \<noteq> 0"
    by (simp add: step_mask_sum_def)
  with rn obtain st' where "train_critic c b (critic_mask_of a b) st = Inl (NameError, st')"
    using train_critic_NameError by blast
  with p show ?thesis by (simp add: train_unfold)
qed

lemma train_AttributeError:
  assumes p: "parse_attacker_actions (rev_onehot_c c) a (batch_size b) (max_seq_length b - 1)
             (map butlast (attacker_action b)) = Inr p"
    and rn: "returns_normally c"
    and z: "\<forall>t < max_seq_length b - 1. step_mask_sum a b t = 0"
  shows "\<exists>st'. train c a b t_env episode_num st = Inl (AttributeError, st')"
proof -
  from z have "\<forall>t < max_seq_length b - 1. tensor_sum (mask_at (critic_mask_of a b) t) = 0"
    by (simp add: step_mask_sum_def)
  with rn obtain cl where cl: "train_critic c b (critic_mask_of a b) st = Inr cl"
    using train_critic_skip_all by blast
  let ?st1 = "(lrn cl)\<lparr>mac := mac_init_hidden c (mac (lrn cl)) (batch_size b)\<rparr>"
  from rn obtain outs st2 where r: "mac_rollout c b [0..<max_seq_length b] [] ?st1 = Inr (outs, st2)"
    using mac_rollout_returns by blast
  then have "length outs = max_seq_length b" using mac_rollout_Inr by fastforce
  moreover from p have "0 < max_seq_length b - 1" using parse_Inr_nonempty by blast
  ultimately have i: "py_index outs 0 = Inr (outs ! 0)" by (simp add: py_index_def)
  obtain m' o' il ign where f: "identifier_fit c (mac st2) (identifier_optimiser st2) outs b (q_vals cl)
                      (map2 mask_row (filled b) (terminated b)) = Inr (m', o', il, ign)"
    using rn not_isl_Inr unfolding returns_normally_def by (metis surj_pair)
  from p cl r f i show ?thesis by (simp add: train_unfold)
qed

lemma critic_step_raises:
  "tensor_sum (mask_at critic_mask t) \<noteq> 0 \<Longrightarrow> isl (critic_step c b targets critic_mask t s)"
  by (cases "critic_step c b targets critic_mask t s") (auto dest: critic_step_Inr)

lemma critic_step_target_mean:
  assumes "critic_step c b targets critic_mask t s = Inl (e, s')"
  shows "target_mean (running s') = target_mean (running s)"
  using assms
  by (auto simp: critic_step_def Let_def attempt_def targets_t_unbound
      split: sum.splits prod.splits if_splits)

lemma sync_checks_unassigned:
  "last_target_update_step st = None \<Longrightarrow> sync_checks c a episode_num st = Inl (AttributeError, st)"
  by (simp add: sync_checks_def getattr_last_target_update_step_def attempt_def)

lemma train_keeps_step_watermark:
  assumes "train c a b t_env episode_num st = Inl (e, st')"
  shows "last_target_update_step st' = last_target_update_step st"
proof -
  obtain e0 st0 where "train c a b t_env episode_num st = Inl (e0, st0)" "untouched st st0"
    using train_raises by blast
  with assms show ?thesis by (simp add: untouched_def)
qed

text \<open>
  Claim C8. In the backward loop of the critic, a step whose mask sum is zero is skipped
  entirely: whatever the collaborators are (also ones that would raise), the step returns
  without an exception and leaves the critic, its optimiser, the step counter, the hidden
  state, the stored Q-values and the running log as they were; so no forward pass, no
  loss, no optimiser step, no increment and no division took place. The same holds for a
  whole run of such steps.
\<close>

theorem critic_step_skips_empty_mask:
  "(tensor_sum (mask_at critic_mask t) = 0 \<longrightarrow>
      critic_step c b targets critic_mask t s = Inr s)
   \<and> (list_all (\<lambda>t. tensor_sum (mask_at critic_mask t) = 0) ts \<longrightarrow>
      critic_loop c b targets critic_mask ts s = Inr s)"
  by (simp add: critic_step_skip critic_loop_skip)

theorem critic_step_skips_empty_mask_witness:
  "tensor_sum (mask_at (critic_mask_of small_args padded_batch) 0) = 0
   \<and> critic_step example_collab padded_batch [[[1, 1]]] (critic_mask_of small_args padded_batch) 0
        example_loop_state = Inr example_loop_state
   \<and> critic_loop example_collab padded_batch [[[1, 1]]] (critic_mask_of small_args padded_batch) [0]
        example_loop_state = Inr example_loop_state"
proof -
  have z: "tensor_sum (mask_at (critic_mask_of small_args padded_batch) 0) = 0"
    by (simp add: tensor_sum_def mask_at_def critic_mask_of_def padded_batch_def example_batch_def
        small_args_def mask_row_def numeral_2_eq_2)
  then have l: "list_all (\<lambda>t. tensor_sum (mask_at (critic_mask_of small_args padded_batch) t) = 0) [0]"
    by simp
  note t = critic_step_skips_empty_mask [of "critic_mask_of small_args padded_batch" 0
      example_collab padded_batch "[[[1, 1]]]" example_loop_state "[0]"]
  from t z l show ?thesis by blast
qed

text \<open>
  Claim C9, evaluated on the code. On a step that is not skipped the code appends four
  statistics (loss, gradient norm, mean absolute TD error, mean online Q) and then raises
  NameError while it evaluates \<open>targets_t\<close> for the fifth: \<open>target_mean\<close> stays empty.
\<close>

theorem critic_step_logs_four_then_raises:
  "tensor_sum (mask_at (critic_mask_of small_args example_batch) 0) = 2
   \<and> critic_step example_collab example_batch [[[1, 1]]] (critic_mask_of small_args example_batch) 0
        example_loop_state
      = Inl (NameError,
          \<lparr>lrn = example_learner\<lparr>critic := 1, critic_optimiser := 1, critic_training_steps := 1\<rparr>,
           critic_hidden = (), q_vals = [[[1 / 2, 1 / 2]]],
           running = \<lparr>critic_loss = [1 / 4], critic_grad_norm = [1], td_error_abs = [1 / 2],
                      target_mean = [], q_taken_mean = [1 / 2]\<rparr>\<rparr>)"
proof -
  have m: "mask_at (critic_mask_of small_args example_batch) 0 = [[1, 1]]"
    by (simp add: mask_at_def critic_mask_of_def example_batch_def small_args_def mask_row_def
        numeral_2_eq_2)
  show ?thesis
    unfolding critic_step_def m
    by (simp add: tensor_sum_def Let_def attempt_def bind_err_def py_truediv_def targets_t_unbound
        example_collab_def example_loop_state_def example_learner_def init_learner_def
        example_batch_def empty_log_def)
qed

text \<open>
  Claim C1, as the code has it. Every call of \<open>train\<close> raises, and the state it leaves has
  the attacker optimiser, the target networks, both synchronisation watermarks, the log
  watermark and everything sent to the logger as before the call. When the recorded
  attacker actions decode and every call into a collaborator returns: if some step of the
  backward loop has a non-zero mask sum the exception is the NameError of \<open>targets_t\<close>;
  if none has, it is the AttributeError of \<open>mask.clnoe()\<close>.
\<close>

theorem train_never_completes:
  "(\<exists>e st'. train c a b t_env episode_num st = Inl (e, st') \<and> untouched st st')
   \<and> (returns_normally c
        \<and> \<not> isl (parse_attacker_actions (rev_onehot_c c) a (batch_size b) (max_seq_length b - 1)
                   (map butlast (attacker_action b))) \<longrightarrow>
        ((\<exists>t < max_seq_length b - 1. step_mask_sum a b t \<noteq> 0) \<longrightarrow>
           (\<exists>st'. train c a b t_env episode_num st = Inl (NameError, st')))
        \<and> ((\<forall>t < max_seq_length b - 1. step_mask_sum a b t = 0) \<longrightarrow>
           (\<exists>st'. train c a b t_env episode_num st = Inl (AttributeError, st'))))"
proof (intro conjI impI)
  show "\<exists>e st'. train c a b t_env episode_num st = Inl (e, st') \<and> untouched st st'"
    by (rule train_raises)
next
  assume h: "returns_normally c
        \<and> \<not> isl (parse_attacker_actions (rev_onehot_c c) a (batch_size b) (max_seq_length b - 1)
                   (map butlast (attacker_action b)))"
  then obtain p where p: "parse_attacker_actions (rev_onehot_c c) a (batch_size b)
      (max_seq_length b - 1) (map butlast (attacker_action b)) = Inr p"
    using not_isl_Inr by blast
  from h have rn: "returns_normally c" by blast
  {
    assume "\<exists>t < max_seq_length b - 1. step_mask_sum a b t \<noteq> 0"
    with p rn show "\<exists>st'. train c a b t_env episode_num st = Inl (NameError, st')"
      by (rule train_NameError)
  }
  {
    assume "\<forall>t < max_seq_length b - 1. step_mask_sum a b t = 0"
    with p rn show "\<exists>st'. train c a b t_env episode_num st = Inl (AttributeError, st')"
      by (rule train_AttributeError)
  }
qed

theorem train_never_completes_witness:
  "returns_normally example_collab
   \<and> \<not> isl (parse_attacker_actions (rev_onehot_c example_collab) small_args
               (batch_size example_batch) (max_seq_length example_batch - 1)
               (map butlast (attacker_action example_batch)))
   \<and> step_mask_sum small_args example_batch 0 \<noteq> 0
   \<and> (\<exists>st'. train example_collab small_args example_batch 5 3 example_learner
             = Inl (NameError, st'))
   \<and> step_mask_sum small_args padded_batch 0 = 0
   \<and> (\<exists>st'. train example_collab small_args padded_batch 5 3 example_learner
             = Inl (AttributeError, st'))"
proof -
  have rn: "returns_normally example_collab"
    by (simp add: returns_normally_def example_collab_def)
  have p: "\<not> isl (parse_attacker_actions (rev_onehot_c example_collab) small_args
               (batch_size example_batch) (max_seq_length example_batch - 1)
               (map butlast (attacker_action example_batch)))"
    by code_simp
  have p': "\<not> isl (parse_attacker_actions (rev_onehot_c example_collab) small_args
               (batch_size padded_batch) (max_seq_length padded_batch - 1)
               (map butlast (attacker_action padded_batch)))"
    by code_simp
  have nz: "step_mask_sum small_args example_batch 0 \<noteq> 0" by code_simp
  have z: "step_mask_sum small_args padded_batch 0 = 0" by code_simp
  have l: "max_seq_length example_batch - 1 = 1" "max_seq_length padded_batch - 1 = 1"
    by (simp_all add: example_batch_def padded_batch_def)
  from nz have nz': "\<exists>t < max_seq_length example_batch - 1. step_mask_sum small_args example_batch t \<noteq> 0"
    unfolding l by blast
  from z have z': "\<forall>t < max_seq_length padded_batch - 1. step_mask_sum small_args padded_batch t = 0"
    unfolding l by simp
  from train_never_completes [of example_collab small_args example_batch 5 3 example_learner] rn p nz'
  have a: "\<exists>st'. train example_collab small_args example_batch 5 3 example_learner
             = Inl (NameError, st')"
    by blast
  from train_never_completes [of example_collab small_args padded_batch 5 3 example_learner] rn p' z'
  have b: "\<exists>st'. train example_collab small_args padded_batch 5 3 example_learner
             = Inl (AttributeError, st')"
    by blast
  from rn p nz a z b show ?thesis by blast
qed

text \<open>
  The claim as written fails on the code: on a batch of one episode with a single step no
  step has a non-zero mask sum, and the call raises while it decodes the attacker actions
  (the reshape of an empty tensor), before it reaches \<open>mask.clnoe()\<close>.
\<close>

theorem train_counterexample:
  "max_seq_length single_step_batch - 1 = 0
   \<and> train example_collab small_args single_step_batch 5 3 example_learner
       = Inl (RuntimeError, example_learner)
   \<and> RuntimeError \<noteq> AttributeError"
  by code_simp

text \<open>
  Claim C7, evaluated on the code. A call of \<open>train\<close> on a freshly constructed learner, at
  episode 3 with a synchronisation interval of 1, raises in the critic loop and ends with
  the target critic, the target controller and the console log untouched although a
  synchronisation is due. The cadence checks themselves, run on the state the call
  leaves, raise AttributeError, because the constructor never assigns
  \<open>last_target_update_step\<close>; with that attribute assigned both checks fire and each
  copies the online networks and logs the message.
\<close>

theorem train_never_synchronises:
  "last_target_update_step example_learner = None
   \<and> train example_collab small_args example_batch 5 3 example_learner
       = Inl (NameError, stepped_learner)
   \<and> target_critic stepped_learner = target_critic example_learner
   \<and> critic stepped_learner \<noteq> target_critic stepped_learner
   \<and> console_log stepped_learner = []
   \<and> sync_checks example_collab small_args 3 stepped_learner
       = Inl (AttributeError, stepped_learner)
   \<and> sync_checks example_collab small_args 3 (stepped_learner\<lparr>last_target_update_step := Some 0\<rparr>)
       = Inr (stepped_learner\<lparr>last_target_update_step := Some 1, target_critic := 1,
                last_target_update_episode := 3,
                console_log := [''Updated target network'', ''Updated target network'']\<rparr>)"
  by code_simp

section \<open>Properties of persistence\<close>

lemma save_models_identifier_opt:
  "save_models c st path fs (path @ ''/identifier_opt.th'')
   = mac_save_models c (mac st) path fs (path @ ''/identifier_opt.th'')"
  by (simp add: save_models_def th_save_def Let_def)

lemma load_models_needs_identifier_opt:
  assumes "fs (path @ ''/identifier_opt.th'') = None"
  shows "isl (load_models c st path fs)"
  using assms
  by (auto simp: load_models_def attempt_def bind_err_def th_load_def Let_def split: sum.splits)

text \<open>
  Claim C2, evaluated on the code. \<open>save_models\<close> writes the identifier optimiser to
  \<open>identifier_critic_opt.th\<close>; \<open>load_models\<close> reads \<open>identifier_opt.th\<close>. After saving to
  an empty directory, loading from the same path raises FileNotFoundError: the two critics
  have been restored by then, none of the three optimiser states has.
\<close>

theorem load_after_save_raises:
  "saved_files ''ckpt/identifier_critic_opt.th'' = Some (SavedOpt 5)
   \<and> saved_files ''ckpt/identifier_opt.th'' = None
   \<and> load_models example_collab example_learner ''ckpt'' saved_files
       = Inl (FileNotFoundError,
              example_learner\<lparr>mac := 2, target_mac := 2, critic := 3, target_critic := 4\<rparr>)
   \<and> identifier_optimiser saved_learner = 5
   \<and> identifier_optimiser example_learner = 0"
  by code_simp

section \<open>Properties of the graph-attention agent\<close>

lemma get_input_shape_without_agent_count:
  assumes "\<not> obs_agent_id a" "agent_type a \<noteq> ''pq''"
    and "obs_last_action a \<Longrightarrow> actions_onehot_vshape sch \<noteq> []"
  shows "get_input_shape a sch = Inr (documented_input_shape a sch)"
  using assms
  by (cases "actions_onehot_vshape sch")
     (auto simp: get_input_shape_def documented_input_shape_def bind_err_def py_index_def Let_def)

lemma get_input_shape_with_agent_count:
  assumes "obs_agent_id a \<or> agent_type a = ''pq''"
    and "obs_last_action a \<Longrightarrow> actions_onehot_vshape sch \<noteq> []"
  shows "get_input_shape a sch = Inl AttributeError"
  using assms
  by (cases "actions_onehot_vshape sch")
     (auto simp: get_input_shape_def bind_err_def py_index_def Let_def dgn_getattr_def
        dgn_agent_attributes_def)

text \<open>
  Claim C6, evaluated on the code. With neither the agent identity nor the paired
  features requested, the derived width is the documented one. With \<open>obs_agent_id\<close> set,
  or with type \<open>pq\<close>, the method reads \<open>self.n_agents\<close>, which the agent does not have,
  and raises AttributeError where the documented width is 12, 27 and 30.
\<close>

theorem get_input_shape_raises:
  "get_input_shape dgn_plain_args dgn_scheme = Inr 9
   \<and> documented_input_shape dgn_plain_args dgn_scheme = 9
   \<and> get_input_shape (dgn_plain_args\<lparr>obs_agent_id := True\<rparr>) dgn_scheme = Inl AttributeError
   \<and> documented_input_shape (dgn_plain_args\<lparr>obs_agent_id := True\<rparr>) dgn_scheme = 12
   \<and> get_input_shape (dgn_plain_args\<lparr>agent_type := ''pq''\<rparr>) dgn_scheme = Inl AttributeError
   \<and> documented_input_shape (dgn_plain_args\<lparr>agent_type := ''pq''\<rparr>) dgn_scheme = 27
   \<and> get_input_shape (dgn_plain_args\<lparr>obs_agent_id := True, agent_type := ''pq''\<rparr>) dgn_scheme
       = Inl AttributeError
   \<and> documented_input_shape (dgn_plain_args\<lparr>obs_agent_id := True, agent_type := ''pq''\<rparr>) dgn_scheme
       = 30"
  by code_simp

subsection \<open>The attention block\<close>

lemma exp_half: "exp (a::real) / (exp a + exp a) = 1 / 2"
  by (simp add: field_simps)

lemma relu_nonneg: "0 \<le> relu z"
  by (simp add: relu_def)

lemma dot_nonneg:
  "(\<And>z. z \<in> set xs \<Longrightarrow> 0 \<le> z) \<Longrightarrow> (\<And>z. z \<in> set ys \<Longrightarrow> 0 \<le> z) \<Longrightarrow> 0 \<le> dot xs ys"
proof -
  assume xs: "\<And>z. z \<in> set xs \<Longrightarrow> 0 \<le> z" and ys: "\<And>z. z \<in> set ys \<Longrightarrow> 0 \<le> z"
  have "\<And>p. p \<in> set (zip xs ys) \<Longrightarrow> 0 \<le> fst p * snd p"
  proof -
    fix p assume "p \<in> set (zip xs ys)"
    then have "fst p \<in> set xs" "snd p \<in> set ys"
      by (metis prod.collapse set_zip_leftD, metis prod.collapse set_zip_rightD)
    then show "0 \<le> fst p * snd p" using xs ys by simp
  qed
  then have "0 \<le> sum_list (map (\<lambda>p. fst p * snd p) (zip xs ys))"
    by (intro sum_list_nonneg) auto
  then show ?thesis by (simp add: dot_def case_prod_unfold)
qed

lemma length_project: "length (project_values l x) = length x"
  by (simp add: project_values_def)

lemma project_nonneg:
  "i < length x \<Longrightarrow> z \<in> set (project_values l x ! i) \<Longrightarrow> 0 \<le> z"
  by (auto simp: project_values_def relu_nonneg)

lemma project_update: "project_values l (x[j := y]) = (project_values l x)[j := map relu (linear_apply l y)]"
  by (simp add: project_values_def map_update)

lemma att_logits_nth:
  "i < length q \<Longrightarrow> j < length k \<Longrightarrow>
   logit_values q k msk ! i ! j = dot (q ! i) (k ! j) * (msk ! i ! j) - 9 * 10 ^ 15 * (1 - msk ! i ! j)"
  by (simp add: logit_values_def)

lemma length_att_logits_row:
  "i < length q \<Longrightarrow> length (logit_values q k msk ! i) = length k"
  by (simp add: logit_values_def)

lemma sum_exp_ge:
  "j < length ls \<Longrightarrow> exp (ls ! j) \<le> sum_list (map exp (ls :: real list))"
proof -
  assume "j < length ls"
  then have "ls ! j \<in> set ls" by simp
  then have "exp (ls ! j) \<in> set (map exp ls)" by simp
  moreover have "\<And>z. z \<in> set (map exp ls) \<Longrightarrow> 0 \<le> z" by auto
  ultimately show ?thesis by (rule member_le_sum_list)
qed

lemma softmax_nth:
  "j < length ls \<Longrightarrow> softmax ls ! j = exp (ls ! j) / sum_list (map exp ls)"
  by (simp add: softmax_def)

lemma softmax_masked_le:
  assumes j: "j < length ls" and a: "a < length ls" and lj: "ls ! j = - (9 * 10 ^ 15)"
    and la: "0 \<le> ls ! a"
  shows "softmax ls ! j \<le> exp (- (9 * 10 ^ 15))"
proof -
  have "1 \<le> exp (ls ! a)" using la by simp
  also have "\<dots> \<le> sum_list (map exp ls)" using a by (rule sum_exp_ge)
  finally have s: "1 \<le> sum_list (map exp ls)" .
  have "exp (ls ! j) / sum_list (map exp ls) \<le> exp (ls ! j) / 1"
    using s by (intro divide_left_mono) simp_all
  then show ?thesis using j lj by (simp add: softmax_nth)
qed

lemma softmax_pos: "j < length ls \<Longrightarrow> 0 < softmax ls ! j"
proof -
  assume j: "j < length ls"
  have "0 < exp (ls ! j)" by simp
  also have "\<dots> \<le> sum_list (map exp ls)" using j by (rule sum_exp_ge)
  finally have "0 < sum_list (map exp ls)" .
  then show ?thesis using j by (simp add: softmax_nth)
qed

lemma softmax_const:
  assumes "\<And>j. j < length ls \<Longrightarrow> ls ! j = a" and j: "j < length ls"
  shows "softmax ls ! j = 1 / real (length ls)"
proof -
  have "ls = replicate (length ls) a"
    using assms(1) by (intro nth_equalityI) simp_all
  then have "sum_list (map exp ls) = real (length ls) * exp a"
    by (metis map_replicate sum_list_replicate)
  moreover have "exp (ls ! j) = exp a" using assms by simp
  ultimately show ?thesis using j by (simp add: softmax_nth)
qed

lemma softmax_sum:
  assumes "ls \<noteq> []"
  shows "sum_list (softmax ls) = 1"
proof -
  obtain l ls' where "ls = l # ls'" using assms by (cases ls) auto
  then have "0 < length ls" by simp
  then have "0 < sum_list (map exp ls)"
    using sum_exp_ge [of 0 ls] by (smt (verit) exp_gt_zero)
  moreover have "sum_list (softmax ls) = sum_list (map exp ls) / sum_list (map exp ls)"
  proof -
    have "sum_list (map (\<lambda>l. exp l * inverse (sum_list (map exp ls))) ls)
          = sum_list (map exp ls) * inverse (sum_list (map exp ls))"
      by (rule sum_list_mult_const)
    then show ?thesis by (simp add: softmax_def divide_inverse comp_def)
  qed
  ultimately show ?thesis by simp
qed

lemma sum_map2_update:
  fixes g :: "real \<Rightarrow> 'b \<Rightarrow> real"
  shows "j < length xs \<Longrightarrow> j < length ys \<Longrightarrow>
    sum_list (map2 g xs (ys[j := z])) = sum_list (map2 g xs ys) - g (xs ! j) (ys ! j) + g (xs ! j) z"
proof (induction xs arbitrary: ys j)
  case Nil
  then show ?case by simp
next
  case (Cons x xs)
  then obtain y ys' where ys: "ys = y # ys'" by (cases ys) auto
  show ?case
  proof (cases j)
    case 0
    with ys show ?thesis by simp
  next
    case (Suc n)
    with Cons.prems ys have "n < length xs" "n < length ys'" by simp_all
    then have "sum_list (map2 g xs (ys'[n := z])) =
      sum_list (map2 g xs ys') - g (xs ! n) (ys' ! n) + g (xs ! n) z"
      by (rule Cons.IH)
    with ys Suc show ?thesis by simp
  qed
qed

lemma att_weights_row:
  "i < length x \<Longrightarrow>
   weight_values m x msk ! i = softmax (logit_values (project_values (fcq m) x) (project_values (fck m) x) msk ! i)"
  by (simp add: weight_values_def Let_def logit_values_def length_project)

lemma length_att_weights_row:
  "i < length x \<Longrightarrow> length (weight_values m x msk ! i) = length x"
  by (simp add: att_weights_row softmax_def length_att_logits_row length_project)

lemma logit_masked:
  assumes "i < length x" "j < length x" "msk ! i ! j = 0"
  shows "logit_values (project_values (fcq m) x) (project_values (fck m) x) msk ! i ! j = - (9 * 10 ^ 15)"
  using assms by (simp add: att_logits_nth length_project)

lemma logit_allowed:
  assumes "i < length x" "a < length x" "msk ! i ! a = 1"
  shows "logit_values (project_values (fcq m) x) (project_values (fck m) x) msk ! i ! a
         = dot (project_values (fcq m) x ! i) (project_values (fck m) x ! a)"
  using assms by (simp add: att_logits_nth length_project)

lemma att_weight_masked_le:
  assumes i: "i < length x" and j: "j < length x" and mj: "msk ! i ! j = 0"
    and a: "a < length x" and ma: "msk ! i ! a = 1"
  shows "weight_values m x msk ! i ! j \<le> exp (- (9 * 10 ^ 15))"
proof -
  let ?ls = "logit_values (project_values (fcq m) x) (project_values (fck m) x) msk ! i"
  have len: "length ?ls = length x" using i by (simp add: length_att_logits_row length_project)
  have lj: "?ls ! j = - (9 * 10 ^ 15)" using i j mj by (rule logit_masked)
  have "?ls ! a = dot (project_values (fcq m) x ! i) (project_values (fck m) x ! a)"
    using i a ma by (rule logit_allowed)
  moreover have "0 \<le> dot (project_values (fcq m) x ! i) (project_values (fck m) x ! a)"
    using i a by (intro dot_nonneg) (auto intro: project_nonneg)
  ultimately have la: "0 \<le> ?ls ! a" by simp
  have "softmax ?ls ! j \<le> exp (- (9 * 10 ^ 15))"
    using j a lj la len by (intro softmax_masked_le) simp_all
  then show ?thesis using i by (simp add: att_weights_row)
qed

lemma att_weight_all_masked:
  assumes i: "i < length x" and j: "j < length x"
    and z: "\<forall>a < length x. msk ! i ! a = 0"
  shows "weight_values m x msk ! i ! j = 1 / real (length x)"
proof -
  let ?ls = "logit_values (project_values (fcq m) x) (project_values (fck m) x) msk ! i"
  have len: "length ?ls = length x" using i by (simp add: length_att_logits_row length_project)
  have "\<And>a. a < length ?ls \<Longrightarrow> ?ls ! a = - (9 * 10 ^ 15)"
    using i z len by (simp add: logit_masked)
  then have "softmax ?ls ! j = 1 / real (length ?ls)"
    using j len by (intro softmax_const) simp_all
  then show ?thesis using i len by (simp add: att_weights_row)
qed

lemma att_weights_sum:
  assumes i: "i < length x"
  shows "sum_list (weight_values m x msk ! i) = 1"
proof -
  let ?ls = "logit_values (project_values (fcq m) x) (project_values (fck m) x) msk ! i"
  have "length ?ls = length x" using i by (simp add: length_att_logits_row length_project)
  with i have "?ls \<noteq> []" by auto
  then have "sum_list (softmax ?ls) = 1" by (rule softmax_sum)
  then show ?thesis using i by (simp add: att_weights_row)
qed

lemma att_weights_independent:
  assumes i: "i < length x" and j: "j < length x" and mj: "msk ! i ! j = 0" and ne: "i \<noteq> j"
  shows "weight_values m (x[j := y]) msk ! i = weight_values m x msk ! i"
proof -
  let ?q = "project_values (fcq m) x" and ?k = "project_values (fck m) x"
  let ?q' = "project_values (fcq m) (x[j := y])" and ?k' = "project_values (fck m) (x[j := y])"
  have q: "?q' ! i = ?q ! i" using ne by (simp add: project_update)
  have "logit_values ?q' ?k' msk ! i = logit_values ?q ?k msk ! i"
  proof (rule nth_equalityI)
    show "length (logit_values ?q' ?k' msk ! i) = length (logit_values ?q ?k msk ! i)"
      using i by (simp add: length_att_logits_row length_project)
  next
    fix a assume "a < length (logit_values ?q' ?k' msk ! i)"
    then have a: "a < length x" using i by (simp add: length_att_logits_row length_project)
    show "logit_values ?q' ?k' msk ! i ! a = logit_values ?q ?k msk ! i ! a"
    proof (cases "a = j")
      case True
      then show ?thesis using i j mj by (simp add: att_logits_nth length_project)
    next
      case False
      then have "?k' ! a = ?k ! a" by (simp add: project_update)
      then show ?thesis using i a q by (simp add: att_logits_nth length_project)
    qed
  qed
  then show ?thesis using i by (simp add: att_weights_row)
qed

lemma att_aggregate_nth:
  assumes "i < length x" "d < length (bias (fcv m))"
  shows "aggregate_values m x msk ! i ! d
         = sum_list (map2 (\<lambda>a v_j. a * v_j ! d) (weight_values m x msk ! i) (project_values (fcv m) x))"
proof -
  have "length (weight_values m x msk) = length x"
    by (simp add: weight_values_def Let_def logit_values_def length_project)
  then show ?thesis using assms
    by (simp add: aggregate_values_def Let_def weighted_values_def)
qed

lemma att_aggregate_perturb:
  assumes i: "i < length x" and j: "j < length x" and mj: "msk ! i ! j = 0" and ne: "i \<noteq> j"
    and d: "d < length (bias (fcv m))"
  shows "aggregate_values m (x[j := y]) msk ! i ! d - aggregate_values m x msk ! i ! d
         = weight_values m x msk ! i ! j
           * (map relu (linear_apply (fcv m) y) ! d - map relu (linear_apply (fcv m) (x ! j)) ! d)"
proof -
  let ?a = "weight_values m x msk ! i"
  let ?v = "project_values (fcv m) x"
  have a': "weight_values m (x[j := y]) msk ! i = ?a"
    using i j mj ne by (rule att_weights_independent)
  have la: "j < length ?a" using i j by (simp add: length_att_weights_row)
  have lv: "j < length ?v" using j by (simp add: length_project)
  have vj: "?v ! j = map relu (linear_apply (fcv m) (x ! j))" using j by (simp add: project_values_def)
  have "aggregate_values m (x[j := y]) msk ! i ! d
        = sum_list (map2 (\<lambda>a v_j. a * v_j ! d) ?a (?v[j := map relu (linear_apply (fcv m) y)]))"
    using i d a' by (simp add: att_aggregate_nth project_update)
  also have "\<dots> = sum_list (map2 (\<lambda>a v_j. a * v_j ! d) ?a ?v)
        - ?a ! j * (?v ! j) ! d + ?a ! j * map relu (linear_apply (fcv m) y) ! d"
    using la lv by (rule sum_map2_update)
  finally show ?thesis using i d vj by (simp add: att_aggregate_nth algebra_simps)
qed

lemma att_aggregate_bound:
  assumes i: "i < length x" and j: "j < length x" and mj: "msk ! i ! j = 0" and ne: "i \<noteq> j"
    and a: "a < length x" and ma: "msk ! i ! a = 1"
    and d: "d < length (bias (fcv m))"
  shows "\<bar>aggregate_values m (x[j := y]) msk ! i ! d - aggregate_values m x msk ! i ! d\<bar>
         \<le> exp (- (9 * 10 ^ 15))
           * \<bar>map relu (linear_apply (fcv m) y) ! d - map relu (linear_apply (fcv m) (x ! j)) ! d\<bar>"
proof -
  let ?w = "weight_values m x msk ! i ! j"
  have w0: "0 \<le> ?w"
    using i j softmax_pos [of j "logit_values (project_values (fcq m) x) (project_values (fck m) x) msk ! i"]
    by (simp add: att_weights_row length_att_logits_row length_project less_imp_le)
  have w1: "?w \<le> exp (- (9 * 10 ^ 15))" using i j mj a ma by (rule att_weight_masked_le)
  have "\<bar>aggregate_values m (x[j := y]) msk ! i ! d - aggregate_values m x msk ! i ! d\<bar>
        = ?w * \<bar>map relu (linear_apply (fcv m) y) ! d - map relu (linear_apply (fcv m) (x ! j)) ! d\<bar>"
    using att_aggregate_perturb [OF i j mj ne d, of y] w0 by (simp add: abs_mult)
  also have "\<dots> \<le> exp (- (9 * 10 ^ 15))
        * \<bar>map relu (linear_apply (fcv m) y) ! d - map relu (linear_apply (fcv m) (x ! j)) ! d\<bar>"
    using w1 by (intro mult_right_mono) simp_all
  finally show ?thesis .
qed

lemma att_forward_row:
  "i < length x \<Longrightarrow>
   forward_values m x msk ! i = map relu (linear_apply (fcout m) (aggregate_values m x msk ! i))"
  by (simp add: forward_values_def project_values_def aggregate_values_def weight_values_def logit_values_def
      length_project Let_def)


lemma project_Some: "project l x = Some p \<Longrightarrow> p = project_values l x"
  by (simp add: project_def split: if_splits)

lemma att_logits_Some: "att_logits q k msk = Some ls \<Longrightarrow> ls = logit_values q k msk"
  by (simp add: att_logits_def split: if_splits)

lemma att_weights_Some:
  assumes "att_weights m x msk = Some w"
  shows "project (fcq m) x = Some (project_values (fcq m) x)
    \<and> project (fck m) x = Some (project_values (fck m) x)
    \<and> att_logits (project_values (fcq m) x) (project_values (fck m) x) msk
        = Some (logit_values (project_values (fcq m) x) (project_values (fck m) x) msk)
    \<and> w = weight_values m x msk"
proof -
  from assms obtain q k ls where q: "project (fcq m) x = Some q" and k: "project (fck m) x = Some k"
    and ls: "att_logits q k msk = Some ls" and w: "w = map softmax ls"
    by (auto simp: att_weights_def Option.bind_eq_Some_conv)
  from q have q': "q = project_values (fcq m) x" by (rule project_Some)
  from k have k': "k = project_values (fck m) x" by (rule project_Some)
  from ls have ls': "ls = logit_values q k msk" by (rule att_logits_Some)
  from q k ls w q' k' ls' show ?thesis by (simp add: weight_values_def Let_def)
qed

lemma att_forward_Some:
  assumes "att_forward m x msk = Some out"
  shows "out = forward_values m x msk \<and> att_weights m x msk = Some (weight_values m x msk)"
proof -
  from assms obtain v att where v: "project (fcv m) x = Some v"
    and att: "att_weights m x msk = Some att"
    and out: "project (fcout m) (map (\<lambda>att_i. weighted_values att_i v (length (bias (fcv m)))) att) = Some out"
    by (auto simp: att_forward_def Option.bind_eq_Some_conv Let_def)
  from v have v': "v = project_values (fcv m) x" by (rule project_Some)
  from att have att': "att = weight_values m x msk" using att_weights_Some by blast
  from out have "out = project_values (fcout m) (map (\<lambda>att_i. weighted_values att_i v (length (bias (fcv m)))) att)"
    by (rule project_Some)
  with v' att' att show ?thesis by (simp add: forward_values_def aggregate_values_def Let_def)
qed

lemma relu_lipschitz: "\<bar>relu a - relu b\<bar> \<le> \<bar>a - b\<bar>"
  by (simp add: relu_def max_def)

lemma dot_nth_list:
  "dot w a = sum_list (map (\<lambda>p. fst p * a ! snd p) (zip w [0..<length a]))"
proof -
  have "a = map ((!) a) [0..<length a]" by (simp add: map_nth)
  then have "zip w a = map (\<lambda>p. (fst p, a ! snd p)) (zip w [0..<length a])"
    by (metis (no_types, lifting) zip_map2 case_prod_unfold map_eq_conv)
  then show ?thesis by (simp add: dot_def comp_def case_prod_unfold)
qed

lemma sum_list_diff_bound:
  fixes g h :: "'a \<Rightarrow> real"
  assumes "\<And>z. z \<in> set zs \<Longrightarrow> \<bar>g z - h z\<bar> \<le> c z"
  shows "\<bar>sum_list (map g zs) - sum_list (map h zs)\<bar> \<le> sum_list (map c zs)"
  using assms
proof (induction zs)
  case Nil
  then show ?case by simp
next
  case (Cons z zs)
  have "\<bar>g z - h z\<bar> \<le> c z" using Cons.prems by simp
  moreover have "\<bar>sum_list (map g zs) - sum_list (map h zs)\<bar> \<le> sum_list (map c zs)"
    using Cons by simp
  ultimately show ?case by simp
qed

lemma dot_diff_bound:
  assumes len: "length a = n" "length a' = n"
    and b: "\<And>d. d < n \<Longrightarrow> \<bar>a' ! d - a ! d\<bar> \<le> E * dv d"
  shows "\<bar>dot w a' - dot w a\<bar> \<le> E * sum_list (map2 (\<lambda>w d. \<bar>w\<bar> * dv d) w [0..<n])"
proof -
  let ?zs = "zip w [0..<n]"
  have "\<bar>dot w a' - dot w a\<bar>
        = \<bar>sum_list (map (\<lambda>p. fst p * a' ! snd p) ?zs) - sum_list (map (\<lambda>p. fst p * a ! snd p) ?zs)\<bar>"
    using len by (simp add: dot_nth_list)
  also have "\<dots> \<le> sum_list (map (\<lambda>p. E * (\<bar>fst p\<bar> * dv (snd p))) ?zs)"
  proof (rule sum_list_diff_bound)
    fix z assume "z \<in> set ?zs"
    then have "snd z \<in> set [0..<n]" by (metis prod.collapse set_zip_rightD)
    then have "snd z < n" by simp
    then have "\<bar>a' ! snd z - a ! snd z\<bar> \<le> E * dv (snd z)" by (rule b)
    then have "\<bar>fst z\<bar> * \<bar>a' ! snd z - a ! snd z\<bar> \<le> \<bar>fst z\<bar> * (E * dv (snd z))"
      by (intro mult_left_mono) simp_all
    moreover have "\<bar>fst z * a' ! snd z - fst z * a ! snd z\<bar> = \<bar>fst z\<bar> * \<bar>a' ! snd z - a ! snd z\<bar>"
      by (simp add: abs_mult right_diff_distrib [symmetric])
    ultimately show "\<bar>fst z * a' ! snd z - fst z * a ! snd z\<bar> \<le> E * (\<bar>fst z\<bar> * dv (snd z))"
      by (simp add: mult.left_commute)
  qed
  also have "\<dots> = E * sum_list (map (\<lambda>p. \<bar>fst p\<bar> * dv (snd p)) ?zs)"
    by (rule sum_list_const_mult)
  finally show ?thesis by (simp add: case_prod_unfold)
qed

lemma linear_apply_nth:
  "e < length (weight l) \<Longrightarrow> e < length (bias l) \<Longrightarrow>
   linear_apply l a ! e = dot (weight l ! e) a + bias l ! e"
  by (simp add: linear_apply_def)

lemma length_linear_apply: "length (linear_apply l a) = min (length (weight l)) (length (bias l))"
  by (simp add: linear_apply_def)

lemma length_aggregate_row:
  "i < length x \<Longrightarrow> length (aggregate_values m x msk ! i) = length (bias (fcv m))"
  by (simp add: aggregate_values_def Let_def weighted_values_def weight_values_def
      logit_values_def length_project)

lemma forward_bound:
  assumes i: "i < length x" and j: "j < length x" and mj: "msk ! i ! j = 0" and ne: "i \<noteq> j"
    and a: "a < length x" and ma: "msk ! i ! a = 1"
    and e: "e < length (forward_values m x msk ! i)"
  shows "\<bar>forward_values m (x[j := y]) msk ! i ! e - forward_values m x msk ! i ! e\<bar>
         \<le> exp (- (9 * 10 ^ 15)) * value_change m (x ! j) y e"
proof -
  let ?agg = "aggregate_values m x msk ! i" and ?agg' = "aggregate_values m (x[j := y]) msk ! i"
  let ?n = "length (bias (fcv m))"
  let ?dv = "\<lambda>d. \<bar>map relu (linear_apply (fcv m) y) ! d - map relu (linear_apply (fcv m) (x ! j)) ! d\<bar>"
  have r: "forward_values m x msk ! i = map relu (linear_apply (fcout m) ?agg)"
    using i by (rule att_forward_row)
  have r': "forward_values m (x[j := y]) msk ! i = map relu (linear_apply (fcout m) ?agg')"
    using i att_forward_row [of i "x[j := y]" m msk] by simp
  from e r have e1: "e < length (weight (fcout m))" and e2: "e < length (bias (fcout m))"
    by (simp_all add: length_linear_apply)
  have l: "length ?agg = ?n" using i by (rule length_aggregate_row)
  have l': "length ?agg' = ?n" using i length_aggregate_row [of i "x[j := y]" m msk] by simp
  have b: "\<And>d. d < ?n \<Longrightarrow> \<bar>?agg' ! d - ?agg ! d\<bar> \<le> exp (- (9 * 10 ^ 15)) * ?dv d"
    using i j mj ne a ma by (rule att_aggregate_bound)
  have "\<bar>forward_values m (x[j := y]) msk ! i ! e - forward_values m x msk ! i ! e\<bar>
        = \<bar>relu (dot (weight (fcout m) ! e) ?agg' + bias (fcout m) ! e)
           - relu (dot (weight (fcout m) ! e) ?agg + bias (fcout m) ! e)\<bar>"
    using e1 e2 by (simp add: r r' length_linear_apply linear_apply_nth)
  also have "\<dots> \<le> \<bar>dot (weight (fcout m) ! e) ?agg' - dot (weight (fcout m) ! e) ?agg\<bar>"
    using relu_lipschitz [of "dot (weight (fcout m) ! e) ?agg' + bias (fcout m) ! e"
        "dot (weight (fcout m) ! e) ?agg + bias (fcout m) ! e"] by simp
  also have "\<dots> \<le> exp (- (9 * 10 ^ 15))
        * sum_list (map2 (\<lambda>w d. \<bar>w\<bar> * ?dv d) (weight (fcout m) ! e) [0..<?n])"
    using l l' b by (rule dot_diff_bound)
  finally show ?thesis by (simp add: value_change_def)
qed


lemma weighted_abs_bound:
  fixes ws :: "real list"
  assumes "length ws = length v" "\<forall>a \<in> set ws. 0 \<le> a" "\<forall>v_j \<in> set v. \<bar>v_j ! d\<bar> \<le> B"
  shows "\<bar>sum_list (map2 (\<lambda>a v_j. a * v_j ! d) ws v)\<bar> \<le> B * sum_list ws"
  using assms
proof (induction ws v rule: list_induct2)
  case Nil
  then show ?case by simp
next
  case (Cons a ws v_j v)
  have "\<bar>a * v_j ! d\<bar> \<le> a * B"
    using Cons.prems by (simp add: abs_mult mult_left_mono)
  moreover have "\<bar>sum_list (map2 (\<lambda>a v_j. a * v_j ! d) ws v)\<bar> \<le> B * sum_list ws"
    using Cons by simp
  ultimately show ?case by (simp add: algebra_simps)
qed

lemma aggregate_entry_bound:
  assumes i: "i < length x" and d: "d < length (bias (fcv m))"
    and b: "\<forall>v_j \<in> set (project_values (fcv m) x). \<bar>v_j ! d\<bar> \<le> B"
  shows "\<bar>aggregate_values m x msk ! i ! d\<bar> \<le> B"
proof -
  let ?ws = "weight_values m x msk ! i"
  have l: "length ?ws = length (project_values (fcv m) x)"
    using i by (simp add: length_att_weights_row length_project)
  have nn: "\<forall>a \<in> set ?ws. 0 \<le> a"
  proof
    fix a assume "a \<in> set ?ws"
    then obtain n where n: "n < length ?ws" and a: "a = ?ws ! n" by (auto simp: in_set_conv_nth)
    let ?ls = "logit_values (project_values (fcq m) x) (project_values (fck m) x) msk ! i"
    have "?ws = softmax ?ls" using i by (rule att_weights_row)
    moreover from this n have "n < length ?ls" by (simp add: softmax_def)
    ultimately show "0 \<le> a" using a softmax_pos [of n ?ls] by (simp add: less_imp_le)
  qed
  have "\<bar>sum_list (map2 (\<lambda>a v_j. a * v_j ! d) ?ws (project_values (fcv m) x))\<bar> \<le> B * sum_list ?ws"
    using l nn b by (rule weighted_abs_bound)
  moreover have "sum_list ?ws = 1" using i by (rule att_weights_sum)
  ultimately show ?thesis using i d by (simp add: att_aggregate_nth)
qed

lemma att_forward_defined:
  assumes "att_weights m x msk = Some w" "project (fcv m) x = Some v"
    and "list_all (linear_in_range (fcout m)) (aggregate_values m x msk)"
  shows "att_forward m x msk = Some (forward_values m x msk)"
proof -
  from assms(1) have w: "w = weight_values m x msk" using att_weights_Some by blast
  from assms(2) have v: "v = project_values (fcv m) x" by (rule project_Some)
  from assms w v show ?thesis
    by (simp add: att_forward_def Let_def project_def forward_values_def aggregate_values_def)
qed

lemma length_aggregate: "length (aggregate_values m x msk) = length x"
  by (simp add: aggregate_values_def weight_values_def logit_values_def length_project Let_def)

lemma unit_forward_defined:
  assumes w: "att_weights unit_att x msk = Some w"
    and v: "project (fcv unit_att) x = Some v"
    and b: "\<forall>v_j \<in> set v. \<bar>v_j ! 0\<bar> \<le> 5"
  shows "att_forward unit_att x msk = Some (forward_values unit_att x msk)"
proof (rule att_forward_defined [OF w v])
  have pv: "project_values (fcv unit_att) x = v" using v project_Some by fastforce
  have n: "length (bias (fcv unit_att)) = 1" by (simp add: unit_att_def unit_linear_def)
  show "list_all (linear_in_range (fcout unit_att)) (aggregate_values unit_att x msk)"
    unfolding list_all_length length_aggregate
  proof (intro allI impI)
    fix i assume i: "i < length x"
    let ?r = "aggregate_values unit_att x msk ! i"
    have "length ?r = 1" using i n by (simp add: length_aggregate_row)
    then obtain z where r: "?r = [z]" by (cases ?r) auto
    have "\<bar>?r ! 0\<bar> \<le> 5"
    proof (rule aggregate_entry_bound)
      show "i < length x" by (rule i)
      show "0 < length (bias (fcv unit_att))" by (simp add: n)
      show "\<forall>v_j \<in> set (project_values (fcv unit_att) x). \<bar>v_j ! 0\<bar> \<le> 5"
        using b by (simp only: pv)
    qed
    then have "\<bar>z\<bar> \<le> 5" by (simp add: r)
    then have "linear_in_range (fcout unit_att) [z]"
      by (simp add: linear_in_range_def sum_in_range_def unit_att_def unit_linear_def float_max_def)
    then show "linear_in_range (fcout unit_att) ?r" by (simp only: r)
  qed
qed

lemma unit_weights_defined:
  "att_weights unit_att two_agents self_mask = Some (weight_values unit_att two_agents self_mask)"
  "att_weights unit_att (two_agents[1 := [5]]) self_mask
     = Some (weight_values unit_att (two_agents[1 := [5]]) self_mask)"
  "att_weights unit_att two_agents blind_mask = Some (weight_values unit_att two_agents blind_mask)"
  "att_weights unit_att (two_agents[1 := [5]]) blind_mask
     = Some (weight_values unit_att (two_agents[1 := [5]]) blind_mask)"
  by (simp_all add: att_weights_def project_def att_logits_def linear_in_range_def logit_in_range_def
      sum_in_range_def unit_att_def unit_linear_def two_agents_def self_mask_def blind_mask_def
      float_max_def dot_def weight_values_def project_values_def linear_apply_def relu_def Let_def
      numeral_2_eq_2)

lemma unit_values_defined:
  "project (fcv unit_att) two_agents = Some [[1], [3]]"
  "project (fcv unit_att) (two_agents[1 := [5]]) = Some [[1], [5]]"
  by (simp_all add: project_def linear_in_range_def sum_in_range_def unit_att_def unit_linear_def
      two_agents_def float_max_def dot_def project_values_def linear_apply_def relu_def)

lemma unit_forward_examples:
  "att_forward unit_att two_agents self_mask = Some (forward_values unit_att two_agents self_mask)"
  "att_forward unit_att (two_agents[1 := [5]]) self_mask
     = Some (forward_values unit_att (two_agents[1 := [5]]) self_mask)"
  "att_forward unit_att two_agents blind_mask = Some (forward_values unit_att two_agents blind_mask)"
  "att_forward unit_att (two_agents[1 := [5]]) blind_mask
     = Some (forward_values unit_att (two_agents[1 := [5]]) blind_mask)"
  by (rule unit_forward_defined, rule unit_weights_defined, rule unit_values_defined, simp)+

lemma cx: "weight_values unit_att two_agents blind_mask ! 0 ! 1 = 1 / 2
   \<and> forward_values unit_att two_agents blind_mask ! 0 = [2]
   \<and> forward_values unit_att (two_agents[1 := [5]]) blind_mask ! 0 = [3]"
  by (simp add: forward_values_def aggregate_values_def weighted_values_def weight_values_def
      logit_values_def project_values_def linear_apply_def unit_att_def unit_linear_def two_agents_def
      blind_mask_def softmax_def dot_def relu_def Let_def numeral_2_eq_2 exp_half)

lemma vc: "value_change unit_att (two_agents ! 1) [5] 0 = 2"
  by (simp add: value_change_def unit_att_def unit_linear_def two_agents_def linear_apply_def dot_def relu_def)

text \<open>
  Claim C5, as the code has it, for the runs in which every value stays finite and
  without rounding. For every embedding set and every mask, the logit of a pair is the
  dot product of its query and key projections (no scaling) times the mask entry, minus
  \<open>9e15\<close> times one minus the mask entry: a pair with mask 1 keeps its dot product, a pair
  with mask 0 gets \<open>-9e15\<close>. The weights of a row are a softmax over the neighbours and sum
  to one. In a row with at least one allowed pair, a pair with mask 0 has weight at most
  \<open>exp (-9e15)\<close>; changing the input of a masked-out other agent then leaves the row of
  weights as it is and moves every output of the masking agent by at most \<open>exp (-9e15)\<close>
  times the absolute output-layer weights times the absolute changes of that agent's value
  projection. In a row with no allowed pair the weights are uniform.
\<close>

theorem att_masking:
  assumes "i < length x" "j < length x" "msk ! i ! j = 0"
    and "att_weights m x msk = Some w"
  shows "(\<exists>q k ls. project (fcq m) x = Some q \<and> project (fck m) x = Some k
            \<and> att_logits q k msk = Some ls \<and> w = map softmax ls
            \<and> (\<forall>a < length x.
                  ls ! i ! a = dot (q ! i) (k ! a) * (msk ! i ! a) - 9 * 10 ^ 15 * (1 - msk ! i ! a))
            \<and> ls ! i ! j = - (9 * 10 ^ 15)
            \<and> (\<forall>a < length x. msk ! i ! a = 1 \<longrightarrow> ls ! i ! a = dot (q ! i) (k ! a)))
    \<and> sum_list (w ! i) = 1
    \<and> ((\<exists>a < length x. msk ! i ! a = 1) \<longrightarrow> w ! i ! j \<le> exp (- (9 * 10 ^ 15)))
    \<and> ((\<forall>a < length x. msk ! i ! a = 0) \<longrightarrow> w ! i ! j = 1 / real (length x))
    \<and> (i \<noteq> j \<longrightarrow> (\<forall>w'. att_weights m (x[j := y]) msk = Some w' \<longrightarrow> w' ! i = w ! i))
    \<and> (i \<noteq> j \<and> (\<exists>a < length x. msk ! i ! a = 1) \<longrightarrow>
          (\<forall>out out'. att_forward m x msk = Some out \<and> att_forward m (x[j := y]) msk = Some out' \<longrightarrow>
             (\<forall>e < length (out ! i).
                \<bar>out' ! i ! e - out ! i ! e\<bar> \<le> exp (- (9 * 10 ^ 15)) * value_change m (x ! j) y e)))"
proof -
  let ?q = "project_values (fcq m) x" and ?k = "project_values (fck m) x"
  let ?ls = "logit_values ?q ?k msk"
  from assms(4) have d: "project (fcq m) x = Some ?q" "project (fck m) x = Some ?k"
    "att_logits ?q ?k msk = Some ?ls" and w: "w = weight_values m x msk"
    using att_weights_Some by blast+
  have ws: "w = map softmax ?ls" using w by (simp add: weight_values_def Let_def)
  have l1: "\<forall>a < length x.
      ?ls ! i ! a = dot (?q ! i) (?k ! a) * (msk ! i ! a) - 9 * 10 ^ 15 * (1 - msk ! i ! a)"
    using assms(1) by (simp add: att_logits_nth length_project)
  have l2: "?ls ! i ! j = - (9 * 10 ^ 15)"
    using assms(1,2,3) by (rule logit_masked)
  have l3: "\<forall>a < length x. msk ! i ! a = 1 \<longrightarrow> ?ls ! i ! a = dot (?q ! i) (?k ! a)"
    using assms(1) by (simp add: logit_allowed)
  from d ws l1 l2 l3 have 1: "\<exists>q k ls. project (fcq m) x = Some q \<and> project (fck m) x = Some k
            \<and> att_logits q k msk = Some ls \<and> w = map softmax ls
            \<and> (\<forall>a < length x.
                  ls ! i ! a = dot (q ! i) (k ! a) * (msk ! i ! a) - 9 * 10 ^ 15 * (1 - msk ! i ! a))
            \<and> ls ! i ! j = - (9 * 10 ^ 15)
            \<and> (\<forall>a < length x. msk ! i ! a = 1 \<longrightarrow> ls ! i ! a = dot (q ! i) (k ! a))"
    by blast
  have 2: "sum_list (w ! i) = 1"
    unfolding w using assms(1) by (rule att_weights_sum)
  have 3: "(\<exists>a < length x. msk ! i ! a = 1) \<longrightarrow> w ! i ! j \<le> exp (- (9 * 10 ^ 15))"
    unfolding w using assms(1,2,3) by (blast intro: att_weight_masked_le)
  have 4: "(\<forall>a < length x. msk ! i ! a = 0) \<longrightarrow> w ! i ! j = 1 / real (length x)"
    unfolding w using assms(1,2) by (blast intro: att_weight_all_masked)
  have 5: "i \<noteq> j \<longrightarrow> (\<forall>w'. att_weights m (x[j := y]) msk = Some w' \<longrightarrow> w' ! i = w ! i)"
  proof (intro impI allI)
    fix w' assume ne: "i \<noteq> j" and "att_weights m (x[j := y]) msk = Some w'"
    then have "w' = weight_values m (x[j := y]) msk" using att_weights_Some by blast
    then show "w' ! i = w ! i"
      unfolding w using assms(1,2,3) ne by (simp add: att_weights_independent)
  qed
  have 6: "i \<noteq> j \<and> (\<exists>a < length x. msk ! i ! a = 1) \<longrightarrow>
          (\<forall>out out'. att_forward m x msk = Some out \<and> att_forward m (x[j := y]) msk = Some out' \<longrightarrow>
             (\<forall>e < length (out ! i).
                \<bar>out' ! i ! e - out ! i ! e\<bar> \<le> exp (- (9 * 10 ^ 15)) * value_change m (x ! j) y e))"
  proof (intro impI allI)
    fix out out' e
    assume h: "i \<noteq> j \<and> (\<exists>a < length x. msk ! i ! a = 1)"
      and o: "att_forward m x msk = Some out \<and> att_forward m (x[j := y]) msk = Some out'"
      and e: "e < length (out ! i)"
    from o have out: "out = forward_values m x msk" and out': "out' = forward_values m (x[j := y]) msk"
      using att_forward_Some by blast+
    from h obtain a where a: "a < length x" "msk ! i ! a = 1" by blast
    from h have ne: "i \<noteq> j" by blast
    from e have e': "e < length (forward_values m x msk ! i)" by (simp add: out)
    show "\<bar>out' ! i ! e - out ! i ! e\<bar> \<le> exp (- (9 * 10 ^ 15)) * value_change m (x ! j) y e"
      unfolding out out' using assms(1,2,3) ne a e' by (rule forward_bound)
  qed
  from 1 2 3 4 5 6 show ?thesis by blast
qed

theorem att_masking_witness:
  "(0 :: nat) < length two_agents \<and> (1 :: nat) < length two_agents
   \<and> self_mask ! 0 ! 1 = 0 \<and> self_mask ! 0 ! 0 = 1
   \<and> (\<exists>w w'. att_weights unit_att two_agents self_mask = Some w
         \<and> att_weights unit_att (two_agents[1 := [5]]) self_mask = Some w'
         \<and> w ! 0 ! 1 \<le> exp (- (9 * 10 ^ 15))
         \<and> sum_list (w ! 0) = 1
         \<and> w' ! 0 = w ! 0)
   \<and> (\<exists>out out'. att_forward unit_att two_agents self_mask = Some out
         \<and> att_forward unit_att (two_agents[1 := [5]]) self_mask = Some out'
         \<and> (0 :: nat) < length (out ! 0)
         \<and> \<bar>out' ! 0 ! 0 - out ! 0 ! 0\<bar> \<le> exp (- (9 * 10 ^ 15)) * 2)"
proof -
  let ?w = "weight_values unit_att two_agents self_mask"
  let ?w' = "weight_values unit_att (two_agents[1 := [5]]) self_mask"
  let ?out = "forward_values unit_att two_agents self_mask"
  let ?out' = "forward_values unit_att (two_agents[1 := [5]]) self_mask"
  have i: "(0 :: nat) < length two_agents" and j: "(1 :: nat) < length two_agents"
    by (simp_all add: two_agents_def)
  have mj: "self_mask ! 0 ! 1 = 0" and ma: "self_mask ! 0 ! 0 = 1"
    by (simp_all add: self_mask_def)
  have dw: "att_weights unit_att two_agents self_mask = Some ?w"
    and dw': "att_weights unit_att (two_agents[1 := [5]]) self_mask = Some ?w'"
    by (rule unit_weights_defined)+
  have df: "att_forward unit_att two_agents self_mask = Some ?out"
    and df': "att_forward unit_att (two_agents[1 := [5]]) self_mask = Some ?out'"
    by (rule unit_forward_examples)+
  note t = att_masking [OF i j mj dw, of "[5]"]
  from i ma have e: "\<exists>a < length two_agents. self_mask ! 0 ! a = 1" by blast
  from t e have b: "?w ! 0 ! 1 \<le> exp (- (9 * 10 ^ 15))" by blast
  from t have s: "sum_list (?w ! 0) = 1" by blast
  from t dw' have u: "?w' ! 0 = ?w ! 0" by simp
  have le: "(0 :: nat) < length (?out ! 0)"
    using i by (simp add: att_forward_row length_linear_apply unit_att_def unit_linear_def)
  from t e df df' le
  have "\<bar>?out' ! 0 ! 0 - ?out ! 0 ! 0\<bar>
        \<le> exp (- (9 * 10 ^ 15)) * value_change unit_att (two_agents ! 1) [5] 0"
    by simp
  moreover have "value_change unit_att (two_agents ! 1) [5] 0 = 2"
    by (simp add: value_change_def unit_att_def unit_linear_def two_agents_def linear_apply_def
        dot_def relu_def)
  ultimately have o: "\<bar>?out' ! 0 ! 0 - ?out ! 0 ! 0\<bar> \<le> exp (- (9 * 10 ^ 15)) * 2" by simp
  from i j mj ma dw dw' b s u df df' le o show ?thesis by blast
qed

text \<open>
  The claim as written fails on the code. Agent 0 masks both agents out and every value
  stays finite: the pair \<open>(0, 1)\<close> has mask 0 and receives the weight one half, and
  changing the input of agent 1 from 3 to 5 changes the output of agent 0 from 2 to 3.
\<close>

theorem att_masking_counterexample:
  "blind_mask ! 0 ! 1 = 0
   \<and> map_option (\<lambda>w. w ! 0 ! 1) (att_weights unit_att two_agents blind_mask) = Some (1 / 2)
   \<and> map_option (\<lambda>out. out ! 0) (att_forward unit_att two_agents blind_mask) = Some [2]
   \<and> map_option (\<lambda>out. out ! 0) (att_forward unit_att (two_agents[1 := [5]]) blind_mask) = Some [3]"
proof -
  have v: "weight_values unit_att two_agents blind_mask ! 0 ! 1 = 1 / 2"
    "forward_values unit_att two_agents blind_mask ! 0 = [2]"
    "forward_values unit_att (two_agents[1 := [5]]) blind_mask ! 0 = [3]"
    by (simp_all add: forward_values_def aggregate_values_def weighted_values_def weight_values_def
      logit_values_def project_values_def linear_apply_def unit_att_def unit_linear_def two_agents_def
      blind_mask_def softmax_def dot_def relu_def Let_def numeral_2_eq_2 exp_half)
  have m0: "blind_mask ! 0 ! 1 = 0" by (simp add: blind_mask_def)
  have a: "map_option (\<lambda>w. w ! 0 ! 1) (att_weights unit_att two_agents blind_mask) = Some (1 / 2)"
    unfolding unit_weights_defined(3) option.map v(1) by (rule refl)
  have b: "map_option (\<lambda>out. out ! 0) (att_forward unit_att two_agents blind_mask) = Some [2]"
    unfolding unit_forward_examples(3) option.map v(2) by (rule refl)
  have c: "map_option (\<lambda>out. out ! 0) (att_forward unit_att (two_agents[1 := [5]]) blind_mask)
           = Some [3]"
    unfolding unit_forward_examples(4) option.map v(3) by (rule refl)
  from m0 a b c show ?thesis by blast
qed

end
